theory Spec2Isabelle
  imports Main
begin

section \<open>Wallpaper Engine / Home Assistant MQTT bridge\<close>

text \<open>
  The repository holds three near-duplicate versions of one program:
  \<^verbatim>\<open>src/src/main.ts\<close> (suffix \<open>_main\<close> below), \<^verbatim>\<open>src/unnamed/part_000\<close> (suffix
  \<open>_part000\<close>, the version that also tracks the current wallpaper) and
  \<^verbatim>\<open>src/unnamed/part_001\<close> (suffix \<open>_part001\<close>, the version with the composite
  \<^verbatim>\<open>title (id)|monitor\<close> select payload). Functions that are textually the same in the
  three files are embedded once.

  Strings are byte lists (the UTF-8 text of the JavaScript string).
\<close>

subsection \<open>JSON values and \<^verbatim>\<open>JSON.stringify\<close>\<close>

text \<open>
  A JavaScript number (a double). A finite number other than negative zero is named by
  the decimal text that \<^verbatim>\<open>Number::toString\<close> gives it, the shortest digits that read
  back as the same double, so that different doubles have different names: 30 is
  \<^verbatim>\<open>30\<close>, 0.5 is \<^verbatim>\<open>0.5\<close>, 1e21 is \<^verbatim>\<open>1e+21\<close>. Negative zero, NaN and the two infinities
  are values of their own.
\<close>

datatype number = Finite string | NegativeZero | NotANumber | PlusInfinity | MinusInfinity

text \<open>
  What \<^verbatim>\<open>JSON.stringify\<close> prints for a number: its \<^verbatim>\<open>Number::toString\<close> text when it is
  finite (\<^verbatim>\<open>0\<close> for negative zero), \<^verbatim>\<open>null\<close> otherwise.
\<close>

fun number_text :: "number \<Rightarrow> string" where
  "number_text (Finite t) = t"
| "number_text NegativeZero = ''0''"
| "number_text NotANumber = ''null''"
| "number_text PlusInfinity = ''null''"
| "number_text MinusInfinity = ''null''"

text \<open>A number is falsy when it is zero, negative zero or NaN.\<close>

fun number_truthy :: "number \<Rightarrow> bool" where
  "number_truthy (Finite t) = (t \<noteq> ''0'')"
| "number_truthy NegativeZero = False"
| "number_truthy NotANumber = False"
| "number_truthy PlusInfinity = True"
| "number_truthy MinusInfinity = True"

text \<open>
  The values the program serialises, and the values \<^verbatim>\<open>JSON.parse\<close> returns. An object
  holds its properties in the order \<^verbatim>\<open>JSON.stringify\<close> prints them (the object's own
  property order).
\<close>

datatype json =
    JNull
  | JBool bool
  | JNum number
  | JStr string
  | JArr "json list"
  | JObj "(string \<times> json) list"

definition hex_char :: "nat \<Rightarrow> char" where
  "hex_char d = ''0123456789abcdef'' ! d"

text \<open>The escapes of \<^verbatim>\<open>JSON.stringify\<close> (QuoteJSONString) for one byte.\<close>

definition escape_char :: "char \<Rightarrow> string" where
  "escape_char c =
     (if c = CHR 0x22 then [CHR 0x5C, CHR 0x22]
      else if c = CHR 0x5C then [CHR 0x5C, CHR 0x5C]
      else if c = CHR 0x08 then [CHR 0x5C, CHR ''b'']
      else if c = CHR 0x0C then [CHR 0x5C, CHR ''f'']
      else if c = CHR 0x0A then [CHR 0x5C, CHR ''n'']
      else if c = CHR 0x0D then [CHR 0x5C, CHR ''r'']
      else if c = CHR 0x09 then [CHR 0x5C, CHR ''t'']
      else if (of_char c :: nat) < 32
        then [CHR 0x5C, CHR ''u'', CHR ''0'', CHR ''0'',
              hex_char ((of_char c :: nat) div 16), hex_char ((of_char c :: nat) mod 16)]
      else [c])"

definition quote :: "string \<Rightarrow> string" where
  "quote s = [CHR 0x22] @ concat (map escape_char s) @ [CHR 0x22]"

fun join :: "string \<Rightarrow> string list \<Rightarrow> string" where
  "join sep [] = []"
| "join sep [p] = p"
| "join sep (p # q # ps) = p @ sep @ join sep (q # ps)"

fun stringify :: "json \<Rightarrow> string" where
  "stringify JNull = ''null''"
| "stringify (JBool b) = (if b then ''true'' else ''false'')"
| "stringify (JNum n) = number_text n"
| "stringify (JStr s) = quote s"
| "stringify (JArr xs) = ''['' @ join '','' (map stringify xs) @ '']''"
| "stringify (JObj kvs) =
     ''{'' @ join '','' (map (\<lambda>kv. quote (fst kv) @ '':'' @ stringify (snd kv)) kvs) @ ''}''"

text \<open>JavaScript truthiness of a JSON value (for \<^verbatim>\<open>x || y\<close>).\<close>

fun truthy :: "json \<Rightarrow> bool" where
  "truthy JNull = False"
| "truthy (JBool b) = b"
| "truthy (JNum n) = number_truthy n"
| "truthy (JStr s) = (s \<noteq> [])"
| "truthy (JArr xs) = True"
| "truthy (JObj kvs) = True"

text \<open>An object literal; a field whose value is \<^verbatim>\<open>undefined\<close> (\<open>None\<close>) is not printed.\<close>

definition obj :: "(string \<times> json option) list \<Rightarrow> json" where
  "obj fields = JObj (concat (map (\<lambda>kv. case snd kv of None \<Rightarrow> [] | Some v \<Rightarrow> [(fst kv, v)]) fields))"

subsection \<open>Identity resolver\<close>

record address_info =
  address :: string
  family :: string
  internal :: bool

text \<open>
  \<^verbatim>\<open>os.networkInterfaces()\<close>: interface names in \<^verbatim>\<open>Object.keys\<close> order, each with its
  address list.
\<close>

type_synonym interfaces = "(string \<times> address_info list) list"

definition startsWith :: "string \<Rightarrow> string \<Rightarrow> bool" where
  "startsWith s p = (take (length p) s = p)"

definition addrs_of :: "interfaces \<Rightarrow> string \<Rightarrow> address_info list" where
  "addrs_of ifaces name = (case map_of ifaces name of None \<Rightarrow> [] | Some addrs \<Rightarrow> addrs)"

text \<open>All addresses in the order the two nested \<^verbatim>\<open>for\<close> loops visit them.\<close>

definition enumerate_addrs :: "interfaces \<Rightarrow> address_info list" where
  "enumerate_addrs ifaces = concat (map (addrs_of ifaces) (map fst ifaces))"

definition getLocalIPv4 :: "string \<Rightarrow> interfaces \<Rightarrow> string" where
  "getLocalIPv4 preferPrefix ifaces =
     (case find (\<lambda>a. family a = ''IPv4'' \<and> \<not> internal a \<and> startsWith (address a) preferPrefix)
             (enumerate_addrs ifaces) of
        Some a \<Rightarrow> address a
      | None \<Rightarrow>
          (case find (\<lambda>a. family a = ''IPv4'' \<and> \<not> internal a) (enumerate_addrs ifaces) of
             Some a \<Rightarrow> address a
           | None \<Rightarrow> ''127.0.0.1''))"

definition defaultPrefix :: string where
  "defaultPrefix = ''192.168.178''"

text \<open>\<^verbatim>\<open>localIp.replace(/\./g, '_')\<close>.\<close>

definition replace_dots :: "string \<Rightarrow> string" where
  "replace_dots s = map (\<lambda>c. if c = CHR ''.'' then CHR ''_'' else c) s"

definition nodeId :: "string \<Rightarrow> string" where
  "nodeId localIp = ''wallpaper_engine_'' @ replace_dots localIp"

definition deviceName :: "string \<Rightarrow> string" where
  "deviceName localIp = ''Wallpaper Engine ('' @ localIp @ '')''"

subsection \<open>Topic naming\<close>

definition makeTopic :: "string list \<Rightarrow> string" where
  "makeTopic parts = join ''/'' parts"

definition haDiscoveryTopic :: "string \<Rightarrow> string \<Rightarrow> string \<Rightarrow> string" where
  "haDiscoveryTopic domain nid objectId =
     ''homeassistant/'' @ domain @ ''/'' @ nid @ ''/'' @ objectId @ ''/config''"

definition statusTopic :: "string \<Rightarrow> string" where
  "statusTopic nid = ''homeassistant/status/'' @ nid"

definition haDevice_main :: "string \<Rightarrow> json" where
  "haDevice_main ip = JObj
     [(''identifiers'', JArr [JStr (''wallpaper-engine-'' @ ip)]),
      (''manufacturer'', JStr ''Wallpaper Engine''),
      (''model'', JStr ''Wallpaper Engine (local)''),
      (''name'', JStr (''Wallpaper Engine ('' @ ip @ '')''))]"

definition haDevice_part000 :: "string \<Rightarrow> json" where
  "haDevice_part000 ip = JObj
     [(''identifiers'', JArr [JStr (''wallpaper-engine-'' @ ip)]),
      (''manufacturer'', JStr ''Wallpaper Engine''),
      (''model'', JStr ''Wallpaper Engine (local)''),
      (''name'', JStr (''Wallpaper Engine ('' @ ip @ '')'')),
      (''via_device'', JNull)]"

definition haDevice_part001 :: "string \<Rightarrow> json" where
  "haDevice_part001 ip = haDevice_main ip"

subsection \<open>Data model\<close>

text \<open>\<^verbatim>\<open>{ id: string; title: string }\<close>, the elements of \<^verbatim>\<open>wallpapers\<close>.\<close>

record wallpaper_entry =
  w_id :: string
  w_title :: string

text \<open>An element of what \<^verbatim>\<open>listWallpapers()\<close> resolves to; \<open>raw_id = None\<close> is a missing id.\<close>

record raw_wallpaper =
  raw_id :: "string option"
  raw_path :: string
  raw_title :: string

text \<open>\<^verbatim>\<open>w => ({ id: w.id || w.path, title: w.title })\<close>: an empty id is falsy too.\<close>

definition to_entry :: "raw_wallpaper \<Rightarrow> wallpaper_entry" where
  "to_entry w =
     \<lparr>w_id = (case raw_id w of None \<Rightarrow> raw_path w | Some i \<Rightarrow> if i = [] then raw_path w else i),
      w_title = raw_title w\<rparr>"

text \<open>What \<^verbatim>\<open>wallpaper().current()\<close> resolves to; \<open>None\<close> is \<^verbatim>\<open>undefined\<close>.\<close>

record current_wallpaper =
  cw_id :: string
  cw_title :: string
  cw_description :: "json option"
  cw_preview :: "json option"
  cw_tags :: "json option"
  cw_path :: "json option"
  cw_properties :: "json option"

text \<open>The shadow booleans, \<^verbatim>\<open>state\<close> in the source.\<close>

record State =
  showIcons :: bool
  muted :: bool
  paused :: bool

text \<open>The variables of \<^verbatim>\<open>main\<close> that the handlers share.\<close>

record program =
  wallpapers :: "wallpaper_entry list"
  profiles :: "string list"
  currentWallpaper :: "(string \<times> string \<times> json option) option"
  state :: State

definition initial_program :: program where
  "initial_program =
     \<lparr>wallpapers = [], profiles = [], currentWallpaper = None,
      state = \<lparr>showIcons = True, muted = False, paused = False\<rparr>\<rparr>"

subsection \<open>The control API, the broker client and the platform\<close>

text \<open>A JavaScript number as \<^verbatim>\<open>parseInt\<close> returns it.\<close>

datatype jsnum = NaN | Num int

text \<open>
  The second argument of \<^verbatim>\<open>wallpaper().load\<close>: absent in \<^verbatim>\<open>load(msg)\<close>, a number in
  \<^verbatim>\<open>load(match.id, monitorIndex)\<close>.
\<close>

datatype monitor = NoMonitor | Monitor jsnum

datatype api_call =
    ShowIcons | HideIcons
  | Mute | Unmute | Pause | Play | Stop
  | LoadWallpaper string monitor
  | LoadProfile string
  | ApplyProperties json
  | ListWallpapers | ListProfiles
  | CurrentWallpaper

text \<open>
  Everything outside the program during the handling of one event: which control-API
  calls reject, what the queries resolve to, the network interfaces, and the platform
  functions \<^verbatim>\<open>JSON.parse\<close> (\<open>None\<close>: it throws) and \<^verbatim>\<open>parseInt\<close> (its argument is
  \<open>None\<close> for \<^verbatim>\<open>undefined\<close>). No handler issues the same call twice, so a function of
  the call is as general as a sequence of answers.
\<close>

record env =
  rejects :: "api_call \<Rightarrow> bool"
  listWallpapers_result :: "raw_wallpaper list"
  listProfiles_result :: "string list option"
  current_result :: current_wallpaper
  JSON_parse :: "string \<Rightarrow> json option"
  parseInt :: "string option \<Rightarrow> jsnum"
  networkInterfaces :: interfaces

text \<open>
  What a handler does to the outside, in order. \<open>Publish topic message retain\<close>;
  the console events carry the first argument of the call only.
\<close>

datatype event =
    Call api_call
  | Publish string string bool
  | Subscribe string
  | ConsoleLog string
  | ConsoleWarn string
  | ConsoleError string
  | SetInterval nat
  | Exit nat

subsection \<open>Statements\<close>

text \<open>
  A statement runs on the program variables and either completes normally or throws;
  in both cases it returns the variables and the events so far.
\<close>

datatype completion = Normal | Throw

type_synonym stmt = "program \<Rightarrow> completion \<times> program \<times> event list"

definition skip :: stmt where
  "skip s = (Normal, s, [])"

definition emit :: "event \<Rightarrow> stmt" where
  "emit e s = (Normal, s, [e])"

definition assign :: "(program \<Rightarrow> program) \<Rightarrow> stmt" where
  "assign f s = (Normal, f s, [])"

text \<open>\<^verbatim>\<open>await we.f()\<close>: the call is made, and throws here when the promise rejects.\<close>

definition await :: "env \<Rightarrow> api_call \<Rightarrow> stmt" where
  "await e c s = (if rejects e c then Throw else Normal, s, [Call c])"

definition throw :: stmt where
  "throw s = (Throw, s, [])"

fun seq :: "stmt list \<Rightarrow> stmt" where
  "seq [] s = (Normal, s, [])"
| "seq (c # cs) s =
     (case c s of
        (Throw, s', t) \<Rightarrow> (Throw, s', t)
      | (Normal, s', t) \<Rightarrow> (case seq cs s' of (r, s'', t') \<Rightarrow> (r, s'', t @ t')))"

definition try_catch :: "stmt \<Rightarrow> stmt \<Rightarrow> stmt" where
  "try_catch body handler s =
     (case body s of
        (Normal, s', t) \<Rightarrow> (Normal, s', t)
      | (Throw, s', t) \<Rightarrow> (case handler s' of (r, s'', t') \<Rightarrow> (r, s'', t @ t')))"

definition publish :: "string \<Rightarrow> string \<Rightarrow> bool \<Rightarrow> stmt" where
  "publish topic message retain = emit (Publish topic message retain)"

definition publishJson_main :: "string \<Rightarrow> json \<Rightarrow> bool \<Rightarrow> stmt" where
  "publishJson_main topic payload retain = publish topic (stringify payload) retain"

definition publishJson_part000 :: "string \<Rightarrow> json \<Rightarrow> bool \<Rightarrow> stmt" where
  "publishJson_part000 topic payload retain = publish topic (stringify payload) retain"

definition publishJson_part001 :: "string \<Rightarrow> json \<Rightarrow> bool \<Rightarrow> stmt" where
  "publishJson_part001 topic payload retain =
     seq [publish topic (stringify payload) retain,
          emit (ConsoleLog (''Published to '' @ topic @ '': '' @ stringify payload))]"

text \<open>Projections of a result.\<close>

definition outcome :: "completion \<times> program \<times> event list \<Rightarrow> completion" where
  "outcome r = fst r"

definition final :: "completion \<times> program \<times> event list \<Rightarrow> program" where
  "final r = fst (snd r)"

definition trace :: "completion \<times> program \<times> event list \<Rightarrow> event list" where
  "trace r = snd (snd r)"

fun calls :: "event list \<Rightarrow> api_call list" where
  "calls [] = []"
| "calls (Call c # es) = c # calls es"
| "calls (e # es) = calls es"

text \<open>The publishes of a trace, as (topic, message, retain).\<close>

fun publishes :: "event list \<Rightarrow> (string \<times> string \<times> bool) list" where
  "publishes [] = []"
| "publishes (Publish t m r # es) = (t, m, r) # publishes es"
| "publishes (e # es) = publishes es"

fun is_console :: "event \<Rightarrow> bool" where
  "is_console (ConsoleLog m) = True"
| "is_console (ConsoleWarn m) = True"
| "is_console (ConsoleError m) = True"
| "is_console e = False"

subsection \<open>Toggle payloads\<close>

definition toLowerCase_char :: "char \<Rightarrow> char" where
  "toLowerCase_char c =
     (case map_of (zip ''ABCDEFGHIJKLMNOPQRSTUVWXYZ'' ''abcdefghijklmnopqrstuvwxyz'') c of
        Some l \<Rightarrow> l
      | None \<Rightarrow> c)"

text \<open>
  \<^verbatim>\<open>String.prototype.toLowerCase\<close> on the ASCII letters. The only use is the comparison
  with \<^verbatim>\<open>'true'\<close>, and no character outside ASCII has \<^verbatim>\<open>t\<close>, \<^verbatim>\<open>r\<close>, \<^verbatim>\<open>u\<close> or \<^verbatim>\<open>e\<close> as
  its lower case, so the other characters can stay as they are.
\<close>

definition toLowerCase :: "string \<Rightarrow> string" where
  "toLowerCase s = map toLowerCase_char s"

text \<open>\<^verbatim>\<open>['ON','1'].includes(msg) || msg.toLowerCase() === 'true'\<close> (main.ts, part_001).\<close>

definition payload_on_main :: "string \<Rightarrow> bool" where
  "payload_on_main msg = (msg \<in> set [''ON'', ''1''] \<or> toLowerCase msg = ''true'')"

text \<open>\<^verbatim>\<open>msg === 'ON' || msg === '1' || msg.toLowerCase() === 'true'\<close> (part_000).\<close>

definition payload_on_part000 :: "string \<Rightarrow> bool" where
  "payload_on_part000 msg = (msg = ''ON'' \<or> msg = ''1'' \<or> toLowerCase msg = ''true'')"

definition on_off :: "bool \<Rightarrow> string" where
  "on_off b = (if b then ''ON'' else ''OFF'')"

definition set_showIcons :: "bool \<Rightarrow> program \<Rightarrow> program" where
  "set_showIcons b s = s\<lparr>state := (state s)\<lparr>showIcons := b\<rparr>\<rparr>"

definition set_muted :: "bool \<Rightarrow> program \<Rightarrow> program" where
  "set_muted b s = s\<lparr>state := (state s)\<lparr>muted := b\<rparr>\<rparr>"

definition set_paused :: "bool \<Rightarrow> program \<Rightarrow> program" where
  "set_paused b s = s\<lparr>state := (state s)\<lparr>paused := b\<rparr>\<rparr>"

subsection \<open>main.ts\<close>

definition entry_json :: "wallpaper_entry \<Rightarrow> json" where
  "entry_json w = JObj [(''id'', JStr (w_id w)), (''title'', JStr (w_title w))]"

definition refreshWallpapersProfiles_main :: "env \<Rightarrow> string \<Rightarrow> stmt" where
  "refreshWallpapersProfiles_main e localIp =
     (let nid = nodeId localIp in
      try_catch
        (seq
          [await e ListWallpapers,
           assign (\<lambda>s. s\<lparr>wallpapers := map to_entry (listWallpapers_result e)\<rparr>),
           await e ListProfiles,
           assign (\<lambda>s. s\<lparr>profiles := (case listProfiles_result e of None \<Rightarrow> [] | Some ps \<Rightarrow> ps)\<rparr>),
           (\<lambda>s. publishJson_main (haDiscoveryTopic ''select'' nid ''select_wallpaper'')
                  (JObj [(''name'', JStr ''Wallpaper''),
                         (''unique_id'', JStr (nid @ ''_select_wallpaper'')),
                         (''command_topic'', JStr (makeTopic [''we'', nid, ''select_wallpaper'', ''set''])),
                         (''state_topic'', JStr (makeTopic [''we'', nid, ''select_wallpaper'', ''state''])),
                         (''options'', JArr (map (\<lambda>w. JStr (w_id w)) (wallpapers s))),
                         (''device'', haDevice_main (getLocalIPv4 defaultPrefix (networkInterfaces e)))])
                  True s),
           (\<lambda>s. publishJson_main (haDiscoveryTopic ''select'' nid ''select_profile'')
                  (JObj [(''name'', JStr ''Profile''),
                         (''unique_id'', JStr (nid @ ''_select_profile'')),
                         (''command_topic'', JStr (makeTopic [''we'', nid, ''select_profile'', ''set''])),
                         (''state_topic'', JStr (makeTopic [''we'', nid, ''select_profile'', ''state''])),
                         (''options'', JArr (map JStr (profiles s))),
                         (''device'', haDevice_main (getLocalIPv4 defaultPrefix (networkInterfaces e)))])
                  True s),
           (\<lambda>s. publish (makeTopic [''we'', nid, ''wallpapers'', ''list''])
                  (stringify (JArr (map entry_json (wallpapers s)))) True s),
           (\<lambda>s. publish (makeTopic [''we'', nid, ''profiles'', ''list''])
                  (stringify (JArr (map JStr (profiles s)))) True s)])
        (emit (ConsoleError ''Failed to refresh wallpapers/profiles'')))"

text \<open>The \<^verbatim>\<open>client.on('message', ...)\<close> handler of main.ts.\<close>

definition on_message_main :: "env \<Rightarrow> string \<Rightarrow> string \<Rightarrow> string \<Rightarrow> stmt" where
  "on_message_main e localIp topic msg =
     (let nid = nodeId localIp in
      try_catch
        (if topic = makeTopic [''we'', nid, ''show_icons'', ''set''] then
           seq [if payload_on_main msg
                  then seq [await e ShowIcons, assign (set_showIcons True)]
                  else seq [await e HideIcons, assign (set_showIcons False)],
                (\<lambda>s. publish (makeTopic [''we'', nid, ''show_icons'', ''state''])
                       (on_off (showIcons (state s))) True s)]
         else if topic = makeTopic [''we'', nid, ''muted'', ''set''] then
           seq [if payload_on_main msg
                  then seq [await e Mute, assign (set_muted True)]
                  else seq [await e Unmute, assign (set_muted False)],
                (\<lambda>s. publish (makeTopic [''we'', nid, ''muted'', ''state''])
                       (on_off (muted (state s))) True s)]
         else if topic = makeTopic [''we'', nid, ''paused'', ''set''] then
           seq [await e Pause,
                assign (\<lambda>s. set_paused (\<not> paused (state s)) s),
                (\<lambda>s. publish (makeTopic [''we'', nid, ''paused'', ''state''])
                       (on_off (paused (state s))) True s)]
         else if topic = makeTopic [''we'', nid, ''button_play'', ''set''] then
           seq [await e Play,
                publish (makeTopic [''we'', nid, ''button_play'', ''state'']) ''pressed'' False]
         else if topic = makeTopic [''we'', nid, ''button_stop'', ''set''] then
           seq [await e Stop,
                publish (makeTopic [''we'', nid, ''button_stop'', ''state'']) ''pressed'' False]
         else if topic = makeTopic [''we'', nid, ''select_wallpaper'', ''set''] then
           seq [await e (LoadWallpaper msg NoMonitor),
                publish (makeTopic [''we'', nid, ''select_wallpaper'', ''state'']) msg True]
         else if topic = makeTopic [''we'', nid, ''select_profile'', ''set''] then
           await e (LoadProfile msg)
         else if topic = makeTopic [''we'', nid, ''properties'', ''set''] then
           try_catch
             (case JSON_parse e msg of
                None \<Rightarrow> throw
              | Some props \<Rightarrow>
                  seq [await e (ApplyProperties props),
                       publish (makeTopic [''we'', nid, ''properties'', ''last_set''])
                         (stringify props) True])
             (emit (ConsoleError ''Invalid JSON for properties''))
         else if topic = makeTopic [''we'', nid, ''refresh'', ''set''] then
           refreshWallpapersProfiles_main e localIp
         else skip)
        (emit (ConsoleError ''Error handling MQTT message'')))"

text \<open>An entity descriptor of \<^verbatim>\<open>initialSyncAndDiscovery\<close>: type, id, name.\<close>

type_synonym entity = "string \<times> string \<times> string"

definition entities :: "entity list" where
  "entities =
     [(''switch'', ''show_icons'', ''Show icons''),
      (''switch'', ''muted'', ''Muted''),
      (''switch'', ''paused'', ''Paused''),
      (''button'', ''button_play'', ''Play''),
      (''button'', ''button_stop'', ''Stop''),
      (''select'', ''select_wallpaper'', ''Wallpaper''),
      (''select'', ''select_profile'', ''Profile''),
      (''sensor'', ''properties_instructions'',
         ''Wallpaper Properties (publish JSON to we/${nodeId}/properties/set)'')]"

text \<open>The registration payload of one entity (the body of the \<^verbatim>\<open>for\<close> loop).\<close>

definition entity_payload :: "json \<Rightarrow> string \<Rightarrow> string \<Rightarrow> entity \<Rightarrow> json" where
  "entity_payload device nid dname en =
     (case en of (ty, eid, name) \<Rightarrow>
        JObj ([(''name'', JStr (dname @ '' '' @ name)),
               (''unique_id'', JStr (nid @ ''_'' @ eid)),
               (''device'', device)] @
              (if ty = ''switch'' then
                 [(''command_topic'', JStr (makeTopic [''we'', nid, eid, ''set''])),
                  (''state_topic'', JStr (makeTopic [''we'', nid, eid, ''state''])),
                  (''payload_on'', JStr ''ON''),
                  (''payload_off'', JStr ''OFF''),
                  (''retain'', JBool True)]
               else if ty = ''button'' then
                 [(''command_topic'', JStr (makeTopic [''we'', nid, eid, ''set'']))]
               else if ty = ''select'' then
                 [(''command_topic'', JStr (makeTopic [''we'', nid, eid, ''set''])),
                  (''state_topic'', JStr (makeTopic [''we'', nid, eid, ''state''])),
                  (''options'', JArr [])]
               else if ty = ''sensor'' then
                 [(''state_topic'', JStr (makeTopic [''we'', nid, ''properties'', ''last_set'']))]
               else [])))"

definition initialSyncAndDiscovery_main :: "string \<Rightarrow> string \<Rightarrow> string \<Rightarrow> stmt" where
  "initialSyncAndDiscovery_main nid dname ip =
     seq (map (\<lambda>en. publishJson_main (haDiscoveryTopic (fst en) nid (fst (snd en)))
                      (entity_payload (haDevice_main ip) nid dname en) True)
              entities)"

definition command_names :: "string list" where
  "command_names =
     [''show_icons'', ''muted'', ''paused'', ''button_play'', ''button_stop'',
      ''select_wallpaper'', ''select_profile'', ''properties'', ''refresh'']"

definition subscribeCommandTopics_main :: "string \<Rightarrow> stmt" where
  "subscribeCommandTopics_main nid =
     seq (map (\<lambda>c. emit (Subscribe (makeTopic [''we'', nid, c, ''set'']))) command_names)"

definition REFRESH_INTERVAL :: nat where
  "REFRESH_INTERVAL = 60000"

text \<open>The \<^verbatim>\<open>client.on('connect', ...)\<close> handler of main.ts.\<close>

definition on_connect_main :: "env \<Rightarrow> string \<Rightarrow> stmt" where
  "on_connect_main e localIp =
     (let nid = nodeId localIp in
      seq [publish (statusTopic nid) ''online'' True,
           emit (ConsoleLog ''MQTT connected''),
           initialSyncAndDiscovery_main nid (deviceName localIp) localIp,
           subscribeCommandTopics_main nid,
           refreshWallpapersProfiles_main e localIp,
           emit (SetInterval REFRESH_INTERVAL)])"

text \<open>The \<^verbatim>\<open>SIGINT\<close> handler, the same in the three files.\<close>

definition on_sigint :: "string \<Rightarrow> stmt" where
  "on_sigint localIp =
     seq [emit (ConsoleLog ''Exiting, setting offline''),
          publish (statusTopic (nodeId localIp)) ''offline'' True,
          emit (Exit 0)]"

subsection \<open>part_000\<close>

definition publishCurrentWallpaper :: "env \<Rightarrow> string \<Rightarrow> stmt" where
  "publishCurrentWallpaper e nid =
     (let cw = current_result e in
      try_catch
        (seq
          [await e CurrentWallpaper,
           assign (\<lambda>s. s\<lparr>currentWallpaper := Some (cw_id cw, cw_title cw, cw_properties cw)\<rparr>),
           publish (makeTopic [''we'', nid, ''current_wallpaper'', ''state''])
             (stringify (JObj [(''id'', JStr (cw_id cw)), (''title'', JStr (cw_title cw))])) True,
           publish (makeTopic [''we'', nid, ''current_wallpaper'', ''attributes''])
             (stringify (obj [(''title'', Some (JStr (cw_title cw))),
                              (''id'', Some (JStr (cw_id cw))),
                              (''description'', cw_description cw),
                              (''preview'', cw_preview cw),
                              (''tags'', cw_tags cw),
                              (''path'', cw_path cw),
                              (''properties'', cw_properties cw)])) True,
           publish (makeTopic [''we'', nid, ''select_wallpaper'', ''state'']) (cw_id cw) True,
           publish (makeTopic [''we'', nid, ''properties'', ''last_set''])
             (stringify (case cw_properties cw of
                           None \<Rightarrow> JObj []
                         | Some v \<Rightarrow> if truthy v then v else JObj [])) True])
        (emit (ConsoleError ''Failed to publish current wallpaper'')))"

definition refreshWallpapersProfilesAndCurrent :: "env \<Rightarrow> string \<Rightarrow> stmt" where
  "refreshWallpapersProfilesAndCurrent e localIp =
     (let nid = nodeId localIp in
      try_catch
        (seq
          [await e ListWallpapers,
           assign (\<lambda>s. s\<lparr>wallpapers := map to_entry (listWallpapers_result e)\<rparr>),
           await e ListProfiles,
           assign (\<lambda>s. s\<lparr>profiles := (case listProfiles_result e of None \<Rightarrow> [] | Some ps \<Rightarrow> ps)\<rparr>),
           (\<lambda>s. publishJson_part000 (haDiscoveryTopic ''select'' nid ''select_wallpaper'')
                  (JObj [(''name'', JStr ''Wallpaper''),
                         (''unique_id'', JStr (nid @ ''_select_wallpaper'')),
                         (''command_topic'', JStr (makeTopic [''we'', nid, ''select_wallpaper'', ''set''])),
                         (''state_topic'', JStr (makeTopic [''we'', nid, ''select_wallpaper'', ''state''])),
                         (''options'', JArr (map (\<lambda>w. JStr (w_id w)) (wallpapers s))),
                         (''device'', haDevice_part000 localIp)])
                  True s),
           (\<lambda>s. publishJson_part000 (haDiscoveryTopic ''select'' nid ''select_profile'')
                  (JObj [(''name'', JStr ''Profile''),
                         (''unique_id'', JStr (nid @ ''_select_profile'')),
                         (''command_topic'', JStr (makeTopic [''we'', nid, ''select_profile'', ''set''])),
                         (''state_topic'', JStr (makeTopic [''we'', nid, ''select_profile'', ''state''])),
                         (''options'', JArr (map JStr (profiles s))),
                         (''device'', haDevice_part000 localIp)])
                  True s),
           publishCurrentWallpaper e nid,
           (\<lambda>s. publish (makeTopic [''we'', nid, ''wallpapers'', ''list''])
                  (stringify (JArr (map entry_json (wallpapers s)))) True s),
           (\<lambda>s. publish (makeTopic [''we'', nid, ''profiles'', ''list''])
                  (stringify (JArr (map JStr (profiles s)))) True s)])
        (emit (ConsoleError ''Failed to refresh wallpapers/profiles'')))"

text \<open>The \<^verbatim>\<open>client.on('message', ...)\<close> handler of part_000.\<close>

definition on_message_part000 :: "env \<Rightarrow> string \<Rightarrow> string \<Rightarrow> string \<Rightarrow> stmt" where
  "on_message_part000 e localIp topic msg =
     (let nid = nodeId localIp in
      try_catch
        (if topic = makeTopic [''we'', nid, ''show_icons'', ''set''] then
           seq [if payload_on_part000 msg
                  then seq [await e ShowIcons, assign (set_showIcons True)]
                  else seq [await e HideIcons, assign (set_showIcons False)],
                (\<lambda>s. publish (makeTopic [''we'', nid, ''show_icons'', ''state''])
                       (on_off (showIcons (state s))) True s)]
         else if topic = makeTopic [''we'', nid, ''muted'', ''set''] then
           seq [if payload_on_part000 msg
                  then seq [await e Mute, assign (set_muted True)]
                  else seq [await e Unmute, assign (set_muted False)],
                (\<lambda>s. publish (makeTopic [''we'', nid, ''muted'', ''state''])
                       (on_off (muted (state s))) True s)]
         else if topic = makeTopic [''we'', nid, ''paused'', ''set''] then
           seq [await e Pause,
                assign (\<lambda>s. set_paused (\<not> paused (state s)) s),
                (\<lambda>s. publish (makeTopic [''we'', nid, ''paused'', ''state''])
                       (on_off (paused (state s))) True s)]
         else if topic = makeTopic [''we'', nid, ''button_play'', ''set''] then
           seq [await e Play,
                publish (makeTopic [''we'', nid, ''button_play'', ''state'']) ''pressed'' False]
         else if topic = makeTopic [''we'', nid, ''button_stop'', ''set''] then
           seq [await e Stop,
                publish (makeTopic [''we'', nid, ''button_stop'', ''state'']) ''pressed'' False]
         else if topic = makeTopic [''we'', nid, ''select_wallpaper'', ''set''] then
           seq [await e (LoadWallpaper msg NoMonitor),
                publishCurrentWallpaper e nid]
         else if topic = makeTopic [''we'', nid, ''select_profile'', ''set''] then
           await e (LoadProfile msg)
         else if topic = makeTopic [''we'', nid, ''properties'', ''set''] then
           try_catch
             (case JSON_parse e msg of
                None \<Rightarrow> throw
              | Some props \<Rightarrow>
                  seq [await e (ApplyProperties props),
                       publishCurrentWallpaper e nid])
             (emit (ConsoleError ''Failed to apply properties, payload must be JSON''))
         else if topic = makeTopic [''we'', nid, ''refresh'', ''set''] then
           refreshWallpapersProfilesAndCurrent e localIp
         else skip)
        (emit (ConsoleError ''Error handling MQTT message'')))"

definition switch_payload :: "json \<Rightarrow> string \<Rightarrow> string \<Rightarrow> string \<Rightarrow> string \<Rightarrow> json" where
  "switch_payload device nid dname eid name =
     JObj [(''name'', JStr (dname @ '' '' @ name)),
           (''unique_id'', JStr (nid @ ''_'' @ eid)),
           (''command_topic'', JStr (makeTopic [''we'', nid, eid, ''set''])),
           (''state_topic'', JStr (makeTopic [''we'', nid, eid, ''state''])),
           (''payload_on'', JStr ''ON''),
           (''payload_off'', JStr ''OFF''),
           (''device'', device),
           (''retain'', JBool True)]"

definition initialSyncAndDiscovery_part000 :: "string \<Rightarrow> string \<Rightarrow> string \<Rightarrow> stmt" where
  "initialSyncAndDiscovery_part000 nid dname ip =
     (let device = haDevice_part000 ip in
      seq
        [publishJson_part000 (haDiscoveryTopic ''switch'' nid ''show_icons'')
           (switch_payload device nid dname ''show_icons'' ''Show icons'') True,
         publishJson_part000 (haDiscoveryTopic ''switch'' nid ''muted'')
           (switch_payload device nid dname ''muted'' ''Muted'') True,
         publishJson_part000 (haDiscoveryTopic ''switch'' nid ''paused'')
           (switch_payload device nid dname ''paused'' ''Paused'') True,
         publishJson_part000 (haDiscoveryTopic ''button'' nid ''button_play'')
           (JObj [(''name'', JStr (dname @ '' Play'')),
                  (''unique_id'', JStr (nid @ ''_play'')),
                  (''command_topic'', JStr (makeTopic [''we'', nid, ''button_play'', ''set''])),
                  (''device'', device)]) True,
         publishJson_part000 (haDiscoveryTopic ''button'' nid ''button_stop'')
           (JObj [(''name'', JStr (dname @ '' Stop'')),
                  (''unique_id'', JStr (nid @ ''_stop'')),
                  (''command_topic'', JStr (makeTopic [''we'', nid, ''button_stop'', ''set''])),
                  (''device'', device)]) True,
         publishJson_part000 (haDiscoveryTopic ''sensor'' nid ''current_wallpaper'')
           (JObj [(''name'', JStr (dname @ '' Current Wallpaper'')),
                  (''unique_id'', JStr (nid @ ''_current_wallpaper'')),
                  (''state_topic'', JStr (makeTopic [''we'', nid, ''current_wallpaper'', ''state''])),
                  (''json_attributes_topic'',
                     JStr (makeTopic [''we'', nid, ''current_wallpaper'', ''attributes''])),
                  (''device'', device),
                  (''value_template'', JStr ''{{ value_json.title }}'')]) True,
         publishJson_part000 (haDiscoveryTopic ''select'' nid ''select_wallpaper'')
           (JObj [(''name'', JStr (dname @ '' Wallpaper'')),
                  (''unique_id'', JStr (nid @ ''_select_wallpaper'')),
                  (''command_topic'', JStr (makeTopic [''we'', nid, ''select_wallpaper'', ''set''])),
                  (''state_topic'', JStr (makeTopic [''we'', nid, ''select_wallpaper'', ''state''])),
                  (''options'', JArr []),
                  (''device'', device)]) True,
         publishJson_part000 (haDiscoveryTopic ''select'' nid ''select_profile'')
           (JObj [(''name'', JStr (dname @ '' Profile'')),
                  (''unique_id'', JStr (nid @ ''_select_profile'')),
                  (''command_topic'', JStr (makeTopic [''we'', nid, ''select_profile'', ''set''])),
                  (''state_topic'', JStr (makeTopic [''we'', nid, ''select_profile'', ''state''])),
                  (''options'', JArr []),
                  (''device'', device)]) True,
         publishJson_part000 (haDiscoveryTopic ''sensor'' nid ''properties_instructions'')
           (JObj [(''name'', JStr (dname @ '' Wallpaper Properties (publish JSON to we/'' @ nid
                                     @ ''/properties/set)'')),
                  (''unique_id'', JStr (nid @ ''_properties_instructions'')),
                  (''state_topic'', JStr (makeTopic [''we'', nid, ''properties'', ''last_set''])),
                  (''device'', device)]) True])"

definition subscribeCommandTopics_part000 :: "string \<Rightarrow> stmt" where
  "subscribeCommandTopics_part000 nid =
     seq (map (\<lambda>t. emit (Subscribe t))
       [makeTopic [''we'', nid, ''show_icons'', ''set''],
        makeTopic [''we'', nid, ''show_icons'', ''state''],
        makeTopic [''we'', nid, ''muted'', ''set''],
        makeTopic [''we'', nid, ''paused'', ''set''],
        makeTopic [''we'', nid, ''button_play'', ''set''],
        makeTopic [''we'', nid, ''button_stop'', ''set''],
        makeTopic [''we'', nid, ''select_wallpaper'', ''set''],
        makeTopic [''we'', nid, ''select_profile'', ''set''],
        makeTopic [''we'', nid, ''properties'', ''set''],
        makeTopic [''we'', nid, ''refresh'', ''set'']])"

definition on_connect_part000 :: "env \<Rightarrow> string \<Rightarrow> stmt" where
  "on_connect_part000 e localIp =
     (let nid = nodeId localIp in
      seq [publish (statusTopic nid) ''online'' True,
           emit (ConsoleLog ''MQTT connected''),
           initialSyncAndDiscovery_part000 nid (deviceName localIp) localIp,
           subscribeCommandTopics_part000 nid,
           refreshWallpapersProfilesAndCurrent e localIp,
           emit (SetInterval REFRESH_INTERVAL)])"

subsection \<open>part_001\<close>

text \<open>\<^verbatim>\<open>msg.split('|')\<close> for a one-character separator: never empty.\<close>

fun split :: "char \<Rightarrow> string \<Rightarrow> string list" where
  "split sep [] = [[]]"
| "split sep (c # cs) =
     (if c = sep then [] # split sep cs
      else (case split sep cs of
              [] \<Rightarrow> [[c]]
            | p # ps \<Rightarrow> (c # p) # ps))"

text \<open>The rendering \<^verbatim>\<open>`${w.title} (${w.id})`\<close> of a catalog entry.\<close>

definition render :: "wallpaper_entry \<Rightarrow> string" where
  "render w = w_title w @ '' ('' @ w_id w @ '')''"

text \<open>
  The \<^verbatim>\<open>select_wallpaper\<close> case of part_001. \<open>monitorStr\<close> and \<open>monitorIndex\<close> are
  \<open>None\<close> for \<^verbatim>\<open>undefined\<close>. A console call whose first argument is the caught error
  carries the empty string.
\<close>

definition select_wallpaper_part001 :: "env \<Rightarrow> string \<Rightarrow> string \<Rightarrow> stmt" where
  "select_wallpaper_part001 e nid msg =
     (let parts = split (CHR ''|'') msg;
          idWithTitle = hd parts;
          monitorStr = (case tl parts of [] \<Rightarrow> None | m # ms \<Rightarrow> Some m);
          monitorIndex = (if monitorStr = Some ''all'' then None else Some (parseInt e monitorStr))
      in seq
        [emit (ConsoleLog (''Setting wallpaper '' @ idWithTitle @ '' on monitor '' @
                 (case monitorStr of None \<Rightarrow> ''undefined'' | Some m \<Rightarrow> m))),
         (\<lambda>s.
            (let match = find (\<lambda>w. render w = idWithTitle) (wallpapers s) in
             (case monitorIndex of
                None \<Rightarrow>
                  (case match of
                     Some w \<Rightarrow>
                       seq (map (\<lambda>monitorIdOfAll.
                                   try_catch (await e (LoadWallpaper (w_id w) (Monitor (Num monitorIdOfAll))))
                                     (seq [emit (ConsoleLog ''crash-1a''), emit (ConsoleError [])]))
                                [0, 1, 2])
                   | None \<Rightarrow> emit (ConsoleWarn ''Wallpaper not found:''))
              | Some n \<Rightarrow>
                  (case match of
                     Some w \<Rightarrow>
                       try_catch (await e (LoadWallpaper (w_id w) (Monitor n)))
                         (seq [emit (ConsoleError []), emit (ConsoleLog ''crash-1b'')])
                   | None \<Rightarrow> emit (ConsoleWarn ''Wallpaper not found:''))) s)),
         publish (makeTopic [''we'', nid, ''select_wallpaper'', ''state'']) msg True])"

text \<open>The option strings \<^verbatim>\<open>['all',0,1,2].map(m => ...)\<close> of one catalog entry.\<close>

definition wallpaper_options :: "wallpaper_entry \<Rightarrow> string list" where
  "wallpaper_options w = map (\<lambda>m. render w @ ''|'' @ m) [''all'', ''0'', ''1'', ''2'']"

definition refreshWallpapersProfiles_part001 :: "env \<Rightarrow> string \<Rightarrow> stmt" where
  "refreshWallpapersProfiles_part001 e localIp =
     (let nid = nodeId localIp in
      try_catch
        (seq
          [await e ListWallpapers,
           assign (\<lambda>s. s\<lparr>wallpapers := map to_entry (listWallpapers_result e)\<rparr>),
           await e ListProfiles,
           assign (\<lambda>s. s\<lparr>profiles := (case listProfiles_result e of None \<Rightarrow> [] | Some ps \<Rightarrow> ps)\<rparr>),
           emit (ConsoleLog ''Refreshed wallpapers and profiles:''),
           (\<lambda>s. publishJson_part001 (haDiscoveryTopic ''select'' nid ''select_wallpaper'')
                  (JObj [(''name'', JStr ''Wallpaper''),
                         (''unique_id'', JStr (nid @ ''_select_wallpaper'')),
                         (''command_topic'', JStr (makeTopic [''we'', nid, ''select_wallpaper'', ''set''])),
                         (''state_topic'', JStr (makeTopic [''we'', nid, ''select_wallpaper'', ''state''])),
                         (''options'', JArr (map JStr (concat (map wallpaper_options (wallpapers s))))),
                         (''device'', haDevice_part001 (getLocalIPv4 defaultPrefix (networkInterfaces e)))])
                  True s),
           (\<lambda>s. publishJson_part001 (haDiscoveryTopic ''select'' nid ''select_profile'')
                  (JObj [(''name'', JStr ''Profile''),
                         (''unique_id'', JStr (nid @ ''_select_profile'')),
                         (''command_topic'', JStr (makeTopic [''we'', nid, ''select_profile'', ''set''])),
                         (''state_topic'', JStr (makeTopic [''we'', nid, ''select_profile'', ''state''])),
                         (''options'', JArr (map JStr (profiles s))),
                         (''device'', haDevice_part001 (getLocalIPv4 defaultPrefix (networkInterfaces e)))])
                  True s),
           (\<lambda>s. publish (makeTopic [''we'', nid, ''wallpapers'', ''list''])
                  (stringify (JArr (map entry_json (wallpapers s)))) True s),
           (\<lambda>s. publish (makeTopic [''we'', nid, ''profiles'', ''list''])
                  (stringify (JArr (map JStr (profiles s)))) True s)])
        (emit (ConsoleError ''Failed to refresh wallpapers/profiles'')))"

text \<open>
  The \<^verbatim>\<open>client.on('message', ...)\<close> handler of part_001. Its \<^verbatim>\<open>paused\<close> case assigns
  \<^verbatim>\<open>state.muted\<close> and publishes \<^verbatim>\<open>state.paused\<close>, as the source does.
\<close>

definition on_message_part001 :: "env \<Rightarrow> string \<Rightarrow> string \<Rightarrow> string \<Rightarrow> stmt" where
  "on_message_part001 e localIp topic msg =
     (let nid = nodeId localIp in
      try_catch
        (seq
          [emit (ConsoleLog (''Received message on '' @ topic @ '': '' @ msg)),
           (if topic = makeTopic [''we'', nid, ''show_icons'', ''set''] then
              seq [if payload_on_main msg
                     then seq [await e ShowIcons, assign (set_showIcons True)]
                     else seq [await e HideIcons, assign (set_showIcons False)],
                   (\<lambda>s. publish (makeTopic [''we'', nid, ''show_icons'', ''state''])
                          (on_off (showIcons (state s))) True s)]
            else if topic = makeTopic [''we'', nid, ''muted'', ''set''] then
              seq [if payload_on_main msg
                     then seq [await e Mute, assign (set_muted True)]
                     else seq [await e Unmute, assign (set_muted False)],
                   (\<lambda>s. publish (makeTopic [''we'', nid, ''muted'', ''state''])
                          (on_off (muted (state s))) True s)]
            else if topic = makeTopic [''we'', nid, ''paused'', ''set''] then
              seq [if payload_on_main msg
                     then seq [await e Pause, assign (set_muted True)]
                     else seq [await e Play, assign (set_muted False)],
                   (\<lambda>s. publish (makeTopic [''we'', nid, ''paused'', ''state''])
                          (on_off (paused (state s))) True s)]
            else if topic = makeTopic [''we'', nid, ''button_play'', ''set''] then
              seq [await e Play,
                   publish (makeTopic [''we'', nid, ''button_play'', ''state'']) ''pressed'' False]
            else if topic = makeTopic [''we'', nid, ''button_stop'', ''set''] then
              seq [await e Stop,
                   publish (makeTopic [''we'', nid, ''button_stop'', ''state'']) ''pressed'' False]
            else if topic = makeTopic [''we'', nid, ''select_wallpaper'', ''set''] then
              select_wallpaper_part001 e nid msg
            else if topic = makeTopic [''we'', nid, ''select_profile'', ''set''] then
              seq [emit (ConsoleLog (''Loading profile '' @ msg)),
                   await e (LoadProfile msg),
                   publish (makeTopic [''we'', nid, ''select_profile'', ''state'']) msg True]
            else if topic = makeTopic [''we'', nid, ''properties'', ''set''] then
              try_catch
                (case JSON_parse e msg of
                   None \<Rightarrow> throw
                 | Some props \<Rightarrow>
                     seq [await e (ApplyProperties props),
                          publish (makeTopic [''we'', nid, ''properties'', ''last_set''])
                            (stringify props) True])
                (emit (ConsoleError ''Invalid JSON for properties''))
            else if topic = makeTopic [''we'', nid, ''refresh'', ''set''] then
              refreshWallpapersProfiles_part001 e localIp
            else skip)])
        (emit (ConsoleError ''Error handling MQTT message'')))"

definition initialSyncAndDiscovery_part001 :: "string \<Rightarrow> string \<Rightarrow> string \<Rightarrow> stmt" where
  "initialSyncAndDiscovery_part001 nid dname ip =
     seq (map (\<lambda>en. publishJson_part001 (haDiscoveryTopic (fst en) nid (fst (snd en)))
                      (entity_payload (haDevice_part001 ip) nid dname en) True)
              entities)"

definition on_connect_part001 :: "env \<Rightarrow> string \<Rightarrow> stmt" where
  "on_connect_part001 e localIp =
     (let nid = nodeId localIp in
      seq [emit (ConsoleLog ''MQTT connected''),
           publish (statusTopic nid) ''online'' True,
           try_catch
             (seq [await e ShowIcons,
                   await e Unmute,
                   await e Play,
                   assign (\<lambda>s. s\<lparr>state := \<lparr>showIcons = True, muted = False, paused = False\<rparr>\<rparr>),
                   emit (ConsoleLog ''Set initial state: show icons, unmuted, playing'')])
             (emit (ConsoleError ''Failed to set initial wallpaper state'')),
           initialSyncAndDiscovery_part001 nid (deviceName localIp) localIp,
           subscribeCommandTopics_main nid,
           refreshWallpapersProfiles_part001 e localIp,
           emit (SetInterval REFRESH_INTERVAL)])"

subsection \<open>The program as a reactive system\<close>

datatype version = Main_ts | Part_000 | Part_001

text \<open>What the event loop delivers: the broker's connect, a message, a timer tick, SIGINT.\<close>

datatype input = Connect | Message string string | Tick | Sigint

definition refresh :: "version \<Rightarrow> env \<Rightarrow> string \<Rightarrow> stmt" where
  "refresh v e localIp =
     (case v of
        Main_ts \<Rightarrow> refreshWallpapersProfiles_main e localIp
      | Part_000 \<Rightarrow> refreshWallpapersProfilesAndCurrent e localIp
      | Part_001 \<Rightarrow> refreshWallpapersProfiles_part001 e localIp)"

definition on_message :: "version \<Rightarrow> env \<Rightarrow> string \<Rightarrow> string \<Rightarrow> string \<Rightarrow> stmt" where
  "on_message v e localIp topic msg =
     (case v of
        Main_ts \<Rightarrow> on_message_main e localIp topic msg
      | Part_000 \<Rightarrow> on_message_part000 e localIp topic msg
      | Part_001 \<Rightarrow> on_message_part001 e localIp topic msg)"

definition on_connect :: "version \<Rightarrow> env \<Rightarrow> string \<Rightarrow> stmt" where
  "on_connect v e localIp =
     (case v of
        Main_ts \<Rightarrow> on_connect_main e localIp
      | Part_000 \<Rightarrow> on_connect_part000 e localIp
      | Part_001 \<Rightarrow> on_connect_part001 e localIp)"

text \<open>
  One turn of the event loop. The timer callback is
  \<^verbatim>\<open>refresh(...).catch(console.error)\<close>.
\<close>

definition handle :: "version \<Rightarrow> env \<Rightarrow> string \<Rightarrow> input \<Rightarrow> stmt" where
  "handle v e localIp i =
     (case i of
        Connect \<Rightarrow> on_connect v e localIp
      | Message topic msg \<Rightarrow> on_message v e localIp topic msg
      | Tick \<Rightarrow> try_catch (refresh v e localIp) (emit (ConsoleError []))
      | Sigint \<Rightarrow> on_sigint localIp)"

text \<open>
  A run: the inputs in arrival order, each with the outside world at its time, handled
  one at a time. A handler that throws leaves the variables as they are at the throw.
\<close>

fun run :: "version \<Rightarrow> string \<Rightarrow> (env \<times> input) list \<Rightarrow> program \<Rightarrow> program \<times> event list" where
  "run v localIp [] s = (s, [])"
| "run v localIp (ei # eis) s =
     (case handle v (fst ei) localIp (snd ei) s of
        (r, s', t) \<Rightarrow> (case run v localIp eis s' of (s'', t') \<Rightarrow> (s'', t @ t')))"

section \<open>Properties\<close>

subsection \<open>Vocabulary of the statements\<close>

definition command_topic :: "string \<Rightarrow> string \<Rightarrow> string" where
  "command_topic localIp name = makeTopic [''we'', nodeId localIp, name, ''set'']"

definition state_topic :: "string \<Rightarrow> string \<Rightarrow> string" where
  "state_topic localIp name = makeTopic [''we'', nodeId localIp, name, ''state'']"

definition last_set_topic :: "string \<Rightarrow> string" where
  "last_set_topic localIp = makeTopic [''we'', nodeId localIp, ''properties'', ''last_set'']"

text \<open>A concrete outside world and address, for the closed instances.\<close>

definition example_ip :: string where
  "example_ip = ''192.168.178.20''"

definition example_env :: env where
  "example_env =
     \<lparr>rejects = (\<lambda>c. False),
      listWallpapers_result =
        [\<lparr>raw_id = Some ''abc123'', raw_path = ''C:/wp/sunset'', raw_title = ''Sunset''\<rparr>],
      listProfiles_result = Some [''Work''],
      current_result =
        \<lparr>cw_id = ''abc123'', cw_title = ''Sunset'', cw_description = None, cw_preview = None,
         cw_tags = None, cw_path = None, cw_properties = None\<rparr>,
      JSON_parse =
        (\<lambda>s. if s = ''{\"fps\":30}'' then Some (JObj [(''fps'', JNum (Finite ''30''))])
             else if s = ''{\"fps\":1e21}'' then Some (JObj [(''fps'', JNum (Finite ''1e+21''))])
             else if s = ''{\"fps\":0.5}'' then Some (JObj [(''fps'', JNum (Finite ''0.5''))])
             else None),
      parseInt = (\<lambda>m. if m = Some ''1'' then Num 1 else NaN),
      networkInterfaces =
        [(''lo'', [\<lparr>address = ''127.0.0.1'', family = ''IPv4'', internal = True\<rparr>]),
         (''eth0'', [\<lparr>address = ''192.168.178.20'', family = ''IPv4'', internal = False\<rparr>])]\<rparr>"

text \<open>The same world with exactly one control-API call rejecting.\<close>

definition rejecting :: "api_call \<Rightarrow> env" where
  "rejecting c = example_env\<lparr>rejects := (\<lambda>x. x = c)\<rparr>"

definition sunset_catalog :: program where
  "sunset_catalog = initial_program\<lparr>wallpapers := [\<lparr>w_id = ''abc123'', w_title = ''Sunset''\<rparr>]\<rparr>"

text \<open>
  The spec's reading of a toggle payload: true when it case-insensitively equals
  \<^verbatim>\<open>true\<close>, or literally equals \<^verbatim>\<open>ON\<close> or \<^verbatim>\<open>1\<close>. Two characters are the same up to
  case when they are equal or are the upper and lower form of one ASCII letter.
\<close>

definition same_letter :: "char \<Rightarrow> char \<Rightarrow> bool" where
  "same_letter x y =
     (x = y \<or> (x, y) \<in> set (zip ''ABCDEFGHIJKLMNOPQRSTUVWXYZ'' ''abcdefghijklmnopqrstuvwxyz'')
            \<or> (y, x) \<in> set (zip ''ABCDEFGHIJKLMNOPQRSTUVWXYZ'' ''abcdefghijklmnopqrstuvwxyz''))"

definition case_insensitive_equal :: "string \<Rightarrow> string \<Rightarrow> bool" where
  "case_insensitive_equal a b = list_all2 same_letter a b"

definition payload_true_spec :: "string \<Rightarrow> bool" where
  "payload_true_spec s = (case_insensitive_equal s ''true'' \<or> s = ''ON'' \<or> s = ''1'')"

definition catalog_topic :: "string \<Rightarrow> string \<Rightarrow> string" where
  "catalog_topic localIp name = makeTopic [''we'', nodeId localIp, name, ''list'']"

text \<open>
  A publish is allowed when it is retained or is the \<^verbatim>\<open>pressed\<close> acknowledgement of one of
  the two buttons.
\<close>

definition allowed_publish :: "string \<Rightarrow> string \<times> string \<times> bool \<Rightarrow> bool" where
  "allowed_publish localIp p =
     (case p of (t, m, r) \<Rightarrow>
        r \<or> (m = ''pressed'' \<and> (t = state_topic localIp ''button_play''
                                \<or> t = state_topic localIp ''button_stop'')))"

subsection \<open>Simplification sets\<close>

lemmas stmt_defs = skip_def emit_def assign_def await_def throw_def try_catch_def publish_def
lemmas topic_defs = command_topic_def state_topic_def last_set_topic_def catalog_topic_def makeTopic_def
lemmas result_defs = outcome_def final_def trace_def
lemmas version_defs = on_message_def refresh_def on_connect_def
lemmas shadow_defs = set_showIcons_def set_muted_def set_paused_def on_off_def

subsection \<open>Toggle payloads\<close>

lemma toLowerCase_char_t: "toLowerCase_char c = CHR ''t'' \<longleftrightarrow> c = CHR ''t'' \<or> c = CHR ''T''"
  unfolding toLowerCase_char_def by (auto split: if_splits)

lemma toLowerCase_char_r: "toLowerCase_char c = CHR ''r'' \<longleftrightarrow> c = CHR ''r'' \<or> c = CHR ''R''"
  unfolding toLowerCase_char_def by (auto split: if_splits)

lemma toLowerCase_char_u: "toLowerCase_char c = CHR ''u'' \<longleftrightarrow> c = CHR ''u'' \<or> c = CHR ''U''"
  unfolding toLowerCase_char_def by (auto split: if_splits)

lemma toLowerCase_char_e: "toLowerCase_char c = CHR ''e'' \<longleftrightarrow> c = CHR ''e'' \<or> c = CHR ''E''"
  unfolding toLowerCase_char_def by (auto split: if_splits)

lemma same_letter_t: "same_letter c (CHR ''t'') \<longleftrightarrow> c = CHR ''t'' \<or> c = CHR ''T''"
  unfolding same_letter_def by auto

lemma same_letter_r: "same_letter c (CHR ''r'') \<longleftrightarrow> c = CHR ''r'' \<or> c = CHR ''R''"
  unfolding same_letter_def by auto

lemma same_letter_u: "same_letter c (CHR ''u'') \<longleftrightarrow> c = CHR ''u'' \<or> c = CHR ''U''"
  unfolding same_letter_def by auto

lemma same_letter_e: "same_letter c (CHR ''e'') \<longleftrightarrow> c = CHR ''e'' \<or> c = CHR ''E''"
  unfolding same_letter_def by auto

lemma toLowerCase_true: "toLowerCase s = ''true'' \<longleftrightarrow> case_insensitive_equal s ''true''"
  unfolding toLowerCase_def case_insensitive_equal_def
  by (simp add: map_eq_Cons_conv list_all2_Cons2 toLowerCase_char_t toLowerCase_char_r
        toLowerCase_char_u toLowerCase_char_e same_letter_t same_letter_r same_letter_u
        same_letter_e)

lemma payload_on_main_spec: "payload_on_main s = payload_true_spec s"
  unfolding payload_on_main_def payload_true_spec_def
  by (auto simp add: toLowerCase_true)

lemma payload_on_part000_spec: "payload_on_part000 s = payload_true_spec s"
  unfolding payload_on_part000_def payload_true_spec_def
  by (auto simp add: toLowerCase_true)

subsection \<open>Select commands\<close>

lemma find_Some_sat: "find P xs = Some x \<Longrightarrow> P x"
  by (induction xs) (auto split: if_splits)

lemma find_None_iff_no: "find P xs = None \<longleftrightarrow> (\<forall>x \<in> set xs. \<not> P x)"
  by (induction xs) auto

text \<open>The only entry rendered as \<^verbatim>\<open>Sunset (abc123)\<close> has id \<^verbatim>\<open>abc123\<close>.\<close>

lemma render_sunset_id:
  assumes "render w = ''Sunset (abc123)''"
  shows "w_id w = ''abc123''"
proof -
  from assms have eq: "w_title w @ '' ('' @ w_id w @ '')'' = ''Sunset (abc123)''"
    by (simp add: render_def)
  then show ?thesis
    by (auto simp add: append_eq_Cons_conv Cons_eq_append_conv)
qed

lemma find_sunset:
  assumes "\<lparr>w_id = ''abc123'', w_title = ''Sunset''\<rparr> \<in> set ws"
  shows "\<exists>w. find (\<lambda>w. render w = ''Sunset (abc123)'') ws = Some w \<and> w_id w = ''abc123''"
proof (cases "find (\<lambda>w. render w = ''Sunset (abc123)'') ws")
  case None
  with assms have "render \<lparr>w_id = ''abc123'', w_title = ''Sunset''\<rparr> \<noteq> ''Sunset (abc123)''"
    by (simp only: find_None_iff_no) blast
  then show ?thesis by (simp add: render_def)
next
  case (Some w)
  then have "render w = ''Sunset (abc123)''" by (rule find_Some_sat)
  then have "w_id w = ''abc123''" by (rule render_sunset_id)
  with Some show ?thesis by simp
qed

text \<open>
  C7. part_001: for the payload \<^verbatim>\<open>Sunset (abc123)|all\<close> and a catalog that contains the
  entry with id \<^verbatim>\<open>abc123\<close> and title \<^verbatim>\<open>Sunset\<close>, the handler makes exactly three control
  calls, one load of \<^verbatim>\<open>abc123\<close> for each of the monitor indices 0, 1 and 2 in this order,
  whether or not any of them rejects, and after them publishes the payload itself,
  retained, on the select state topic; that is its only publish.
\<close>

theorem select_all_loads_every_monitor:
  assumes "\<lparr>w_id = ''abc123'', w_title = ''Sunset''\<rparr> \<in> set (wallpapers s)"
  shows "filter (\<lambda>ev. \<not> is_console ev)
           (trace (on_message Part_001 e ip (command_topic ip ''select_wallpaper'')
                     ''Sunset (abc123)|all'' s))
         = [Call (LoadWallpaper ''abc123'' (Monitor (Num 0))),
            Call (LoadWallpaper ''abc123'' (Monitor (Num 1))),
            Call (LoadWallpaper ''abc123'' (Monitor (Num 2))),
            Publish (state_topic ip ''select_wallpaper'') ''Sunset (abc123)|all'' True]"
proof -
  from assms obtain w where
    w: "find (\<lambda>w. render w = ''Sunset (abc123)'') (wallpapers s) = Some w" "w_id w = ''abc123''"
    using find_sunset by blast
  show ?thesis
    by (simp add: version_defs on_message_part001_def select_wallpaper_part001_def stmt_defs
          topic_defs result_defs Let_def w)
qed

theorem select_all_loads_every_monitor_witness:
  "\<lparr>w_id = ''abc123'', w_title = ''Sunset''\<rparr> \<in> set (wallpapers sunset_catalog)
   \<and> filter (\<lambda>ev. \<not> is_console ev)
        (trace (on_message Part_001 (rejecting (LoadWallpaper ''abc123'' (Monitor (Num 1))))
                  example_ip (command_topic example_ip ''select_wallpaper'')
                  ''Sunset (abc123)|all'' sunset_catalog))
      = [Call (LoadWallpaper ''abc123'' (Monitor (Num 0))),
         Call (LoadWallpaper ''abc123'' (Monitor (Num 1))),
         Call (LoadWallpaper ''abc123'' (Monitor (Num 2))),
         Publish (state_topic example_ip ''select_wallpaper'') ''Sunset (abc123)|all'' True]"
proof -
  have m: "\<lparr>w_id = ''abc123'', w_title = ''Sunset''\<rparr> \<in> set (wallpapers sunset_catalog)"
    by (simp add: sunset_catalog_def initial_program_def)
  from m select_all_loads_every_monitor [OF m] show ?thesis by simp
qed

text \<open>
  C3, as the claim states it, fails: with an empty catalog part_001 makes no control call
  for the payload \<^verbatim>\<open>Nope (x)|all\<close> but still publishes it on the select state topic, and
  main.ts, which never consults the catalog, calls load with the whole payload.
\<close>

theorem select_unresolved_counterexample:
  "find (\<lambda>w. render w = hd (split (CHR ''|'') ''Nope (x)|all'')) (wallpapers initial_program) = None
   \<and> publishes (trace (on_message Part_001 example_env example_ip
        (command_topic example_ip ''select_wallpaper'') ''Nope (x)|all'' initial_program))
      = [(state_topic example_ip ''select_wallpaper'', ''Nope (x)|all'', True)]
   \<and> calls (trace (on_message Main_ts example_env example_ip
        (command_topic example_ip ''select_wallpaper'') ''Nope (x)|all'' initial_program))
      = [LoadWallpaper ''Nope (x)|all'' NoMonitor]"
  by (simp add: version_defs on_message_part001_def on_message_main_def
        select_wallpaper_part001_def stmt_defs topic_defs result_defs Let_def
        example_env_def initial_program_def)

text \<open>
  C3, amended. part_001: when no catalog entry is rendered as the part of the payload
  before the first \<^verbatim>\<open>|\<close>, the handler makes no control call, leaves the program variables
  as they are, and its only publish is the payload itself, retained, on the select state
  topic.
\<close>

theorem select_unresolved_no_load:
  assumes "find (\<lambda>w. render w = hd (split (CHR ''|'') msg)) (wallpapers s) = None"
  shows "calls (trace (on_message Part_001 e ip (command_topic ip ''select_wallpaper'') msg s)) = []
    \<and> final (on_message Part_001 e ip (command_topic ip ''select_wallpaper'') msg s) = s
    \<and> publishes (trace (on_message Part_001 e ip (command_topic ip ''select_wallpaper'') msg s))
        = [(state_topic ip ''select_wallpaper'', msg, True)]"
  using assms
  by (simp add: version_defs on_message_part001_def select_wallpaper_part001_def stmt_defs
        topic_defs result_defs Let_def split: option.splits)

theorem select_unresolved_no_load_witness:
  "find (\<lambda>w. render w = hd (split (CHR ''|'') ''Dawn (abc123)|1'')) (wallpapers sunset_catalog) = None
   \<and> calls (trace (on_message Part_001 example_env example_ip
        (command_topic example_ip ''select_wallpaper'') ''Dawn (abc123)|1'' sunset_catalog)) = []
   \<and> publishes (trace (on_message Part_001 example_env example_ip
        (command_topic example_ip ''select_wallpaper'') ''Dawn (abc123)|1'' sunset_catalog))
      = [(state_topic example_ip ''select_wallpaper'', ''Dawn (abc123)|1'', True)]"
proof -
  have n: "find (\<lambda>w. render w = hd (split (CHR ''|'') ''Dawn (abc123)|1''))
             (wallpapers sunset_catalog) = None"
    by (simp add: sunset_catalog_def initial_program_def render_def)
  from n select_unresolved_no_load [OF n] show ?thesis by simp
qed

text \<open>
  C4, as the claim states it, fails: main.ts and part_000 call the profile load and
  publish nothing.
\<close>

theorem select_profile_counterexample:
  "trace (on_message Main_ts example_env example_ip (command_topic example_ip ''select_profile'')
            ''Work'' initial_program) = [Call (LoadProfile ''Work'')]
   \<and> trace (on_message Part_000 example_env example_ip (command_topic example_ip ''select_profile'')
            ''Work'' initial_program) = [Call (LoadProfile ''Work'')]"
  by (simp add: version_defs on_message_main_def on_message_part000_def stmt_defs topic_defs
        result_defs Let_def example_env_def)

text \<open>
  C4, amended. For every select-profile command with payload p, every version makes
  exactly one control call, the profile load with p. part_001 then publishes p itself,
  retained, on the \<^verbatim>\<open>select_profile\<close> state topic when the load resolves, and nothing
  when it rejects; main.ts and part_000 publish nothing.
\<close>

theorem select_profile_load_and_publish:
  "calls (trace (on_message v e ip (command_topic ip ''select_profile'') p s)) = [LoadProfile p]
   \<and> publishes (trace (on_message v e ip (command_topic ip ''select_profile'') p s))
       = (if v = Part_001 \<and> \<not> rejects e (LoadProfile p)
          then [(state_topic ip ''select_profile'', p, True)] else [])"
  by (cases v)
     (simp_all add: version_defs on_message_main_def on_message_part000_def
        on_message_part001_def stmt_defs topic_defs result_defs Let_def)

theorem select_profile_load_and_publish_witness:
  "calls (trace (on_message Part_001 example_env example_ip
            (command_topic example_ip ''select_profile'') ''Work'' initial_program))
     = [LoadProfile ''Work'']
   \<and> publishes (trace (on_message Part_001 example_env example_ip
            (command_topic example_ip ''select_profile'') ''Work'' initial_program))
     = [(state_topic example_ip ''select_profile'', ''Work'', True)]"
  using select_profile_load_and_publish
          [of Part_001 example_env example_ip "''Work''" initial_program]
  by (simp add: example_env_def)

subsection \<open>Toggle commands\<close>

text \<open>
  An accepted \<^verbatim>\<open>show_icons\<close> or \<^verbatim>\<open>muted\<close> command, in every version: the shadow boolean
  becomes what the payload says and that value is the one publish, retained.
\<close>

lemma toggle_accepted_icons:
  "\<not> rejects e (if payload_true_spec msg then ShowIcons else HideIcons) \<Longrightarrow>
   showIcons (state (final (on_message v e ip (command_topic ip ''show_icons'') msg s)))
     = payload_true_spec msg
   \<and> publishes (trace (on_message v e ip (command_topic ip ''show_icons'') msg s))
     = [(state_topic ip ''show_icons'', on_off (payload_true_spec msg), True)]"
  by (cases v)
     (auto simp add: version_defs on_message_main_def on_message_part000_def
        on_message_part001_def stmt_defs topic_defs result_defs shadow_defs Let_def
        payload_on_main_spec payload_on_part000_spec split: if_splits)

lemma toggle_accepted_muted:
  "\<not> rejects e (if payload_true_spec msg then Mute else Unmute) \<Longrightarrow>
   muted (state (final (on_message v e ip (command_topic ip ''muted'') msg s)))
     = payload_true_spec msg
   \<and> publishes (trace (on_message v e ip (command_topic ip ''muted'') msg s))
     = [(state_topic ip ''muted'', on_off (payload_true_spec msg), True)]"
  by (cases v)
     (auto simp add: version_defs on_message_main_def on_message_part000_def
        on_message_part001_def stmt_defs topic_defs result_defs shadow_defs Let_def
        payload_on_main_spec payload_on_part000_spec split: if_splits)

text \<open>
  An accepted \<^verbatim>\<open>paused\<close> command in main.ts and part_000: whatever the payload, the
  shadow boolean is flipped and the flipped value is published.
\<close>

lemma pause_accepted_flips:
  "v \<noteq> Part_001 \<Longrightarrow> \<not> rejects e Pause \<Longrightarrow>
   paused (state (final (on_message v e ip (command_topic ip ''paused'') msg s)))
     = (\<not> paused (state s))
   \<and> publishes (trace (on_message v e ip (command_topic ip ''paused'') msg s))
     = [(state_topic ip ''paused'', on_off (\<not> paused (state s)), True)]"
  by (cases v)
     (simp_all add: version_defs on_message_main_def on_message_part000_def
        stmt_defs topic_defs result_defs shadow_defs Let_def)

text \<open>
  An accepted \<^verbatim>\<open>paused\<close> command in part_001, for every payload and state: the handler
  writes the payload's value to \<^verbatim>\<open>muted\<close>, leaves \<^verbatim>\<open>paused\<close> as it was, and publishes that
  old value of \<^verbatim>\<open>paused\<close>.
\<close>

lemma part001_pause_accepted:
  "\<not> rejects e (if payload_true_spec msg then Pause else Play) \<Longrightarrow>
   final (on_message Part_001 e ip (command_topic ip ''paused'') msg s)
     = set_muted (payload_true_spec msg) s
   \<and> publishes (trace (on_message Part_001 e ip (command_topic ip ''paused'') msg s))
     = [(state_topic ip ''paused'', on_off (paused (state s)), True)]"
  by (auto simp add: version_defs on_message_part001_def stmt_defs topic_defs result_defs
        set_muted_def Let_def payload_on_main_spec split: if_splits)

text \<open>The identity resolver follows the order the spec gives.\<close>

lemma getLocalIPv4_preferred:
  "find (\<lambda>a. family a = ''IPv4'' \<and> \<not> internal a \<and> startsWith (address a) p)
     (enumerate_addrs ifaces) = Some a \<Longrightarrow> getLocalIPv4 p ifaces = address a"
  by (simp add: getLocalIPv4_def)

lemma getLocalIPv4_loopback:
  "\<forall>a \<in> set (enumerate_addrs ifaces). family a \<noteq> ''IPv4'' \<or> internal a \<Longrightarrow>
   getLocalIPv4 p ifaces = ''127.0.0.1''"
proof -
  assume no: "\<forall>a \<in> set (enumerate_addrs ifaces). family a \<noteq> ''IPv4'' \<or> internal a"
  then have a: "find (\<lambda>a. family a = ''IPv4'' \<and> \<not> internal a \<and> startsWith (address a) p)
                  (enumerate_addrs ifaces) = None"
    by (simp only: find_None_iff_no) blast
  from no have b: "find (\<lambda>a. family a = ''IPv4'' \<and> \<not> internal a) (enumerate_addrs ifaces) = None"
    by (simp only: find_None_iff_no) blast
  from a b show ?thesis by (simp add: getLocalIPv4_def)
qed

text \<open>
  C6. In every version the \<^verbatim>\<open>show_icons\<close> and \<^verbatim>\<open>muted\<close> commands call the enabling
  control function exactly when the payload is \<^verbatim>\<open>ON\<close>, \<^verbatim>\<open>1\<close> or case-insensitively
  \<^verbatim>\<open>true\<close>, and the disabling one for every other payload; part_001 reads the payload of
  \<^verbatim>\<open>paused\<close> the same way. \<^verbatim>\<open>ON\<close>, \<^verbatim>\<open>1\<close>, \<^verbatim>\<open>true\<close>, \<^verbatim>\<open>TRUE\<close> and \<^verbatim>\<open>tRuE\<close> are true;
  the empty string and \<^verbatim>\<open>OFF\<close> are false.
\<close>

theorem toggle_payload_interpretation:
  "calls (trace (on_message v e ip (command_topic ip ''show_icons'') msg s))
     = [if payload_true_spec msg then ShowIcons else HideIcons]
   \<and> calls (trace (on_message v e ip (command_topic ip ''muted'') msg s))
     = [if payload_true_spec msg then Mute else Unmute]
   \<and> calls (trace (on_message Part_001 e ip (command_topic ip ''paused'') msg s))
     = [if payload_true_spec msg then Pause else Play]
   \<and> payload_true_spec ''ON'' \<and> payload_true_spec ''1'' \<and> payload_true_spec ''true''
   \<and> payload_true_spec ''TRUE'' \<and> payload_true_spec ''tRuE''
   \<and> \<not> payload_true_spec [] \<and> \<not> payload_true_spec ''OFF''"
proof -
  have icons: "calls (trace (on_message v e ip (command_topic ip ''show_icons'') msg s))
     = [if payload_true_spec msg then ShowIcons else HideIcons]"
    by (cases v)
       (simp_all add: version_defs on_message_main_def on_message_part000_def
          on_message_part001_def stmt_defs topic_defs result_defs Let_def
          payload_on_main_spec payload_on_part000_spec)
  have mute: "calls (trace (on_message v e ip (command_topic ip ''muted'') msg s))
     = [if payload_true_spec msg then Mute else Unmute]"
    by (cases v)
       (simp_all add: version_defs on_message_main_def on_message_part000_def
          on_message_part001_def stmt_defs topic_defs result_defs Let_def
          payload_on_main_spec payload_on_part000_spec)
  have pause: "calls (trace (on_message Part_001 e ip (command_topic ip ''paused'') msg s))
     = [if payload_true_spec msg then Pause else Play]"
    by (simp add: version_defs on_message_part001_def stmt_defs topic_defs result_defs Let_def
          payload_on_main_spec)
  have samples: "payload_true_spec ''ON'' \<and> payload_true_spec ''1'' \<and> payload_true_spec ''true''
     \<and> payload_true_spec ''TRUE'' \<and> payload_true_spec ''tRuE''
     \<and> \<not> payload_true_spec [] \<and> \<not> payload_true_spec ''OFF''"
    by (simp add: payload_true_spec_def case_insensitive_equal_def same_letter_def)
  from icons mute pause samples show ?thesis by simp
qed

text \<open>
  C10. In every version, when the control call of a \<^verbatim>\<open>show_icons\<close> or \<^verbatim>\<open>muted\<close> command
  rejects, the handler returns normally (the enclosing catch absorbs the error), the
  program variables, and with them the shadow boolean, are what they were before the
  command, the rejected call is the only control call, and nothing is published.
\<close>

theorem toggle_rejected_keeps_shadow:
  "(rejects e (if payload_true_spec msg then ShowIcons else HideIcons) \<longrightarrow>
      outcome (on_message v e ip (command_topic ip ''show_icons'') msg s) = Normal
      \<and> final (on_message v e ip (command_topic ip ''show_icons'') msg s) = s
      \<and> publishes (trace (on_message v e ip (command_topic ip ''show_icons'') msg s)) = [])
   \<and> (rejects e (if payload_true_spec msg then Mute else Unmute) \<longrightarrow>
      outcome (on_message v e ip (command_topic ip ''muted'') msg s) = Normal
      \<and> final (on_message v e ip (command_topic ip ''muted'') msg s) = s
      \<and> publishes (trace (on_message v e ip (command_topic ip ''muted'') msg s)) = [])"
  by (cases v)
     (simp_all add: version_defs on_message_main_def on_message_part000_def
        on_message_part001_def stmt_defs topic_defs result_defs Let_def
        payload_on_main_spec payload_on_part000_spec)

theorem toggle_rejected_keeps_shadow_witness:
  "rejects (rejecting HideIcons) (if payload_true_spec ''OFF'' then ShowIcons else HideIcons)
   \<and> final (on_message Part_001 (rejecting HideIcons) example_ip
              (command_topic example_ip ''show_icons'') ''OFF'' initial_program) = initial_program
   \<and> publishes (trace (on_message Part_001 (rejecting HideIcons) example_ip
              (command_topic example_ip ''show_icons'') ''OFF'' initial_program)) = []
   \<and> rejects (rejecting Mute) (if payload_true_spec ''ON'' then Mute else Unmute)
   \<and> final (on_message Main_ts (rejecting Mute) example_ip
              (command_topic example_ip ''muted'') ''ON'' initial_program) = initial_program
   \<and> publishes (trace (on_message Main_ts (rejecting Mute) example_ip
              (command_topic example_ip ''muted'') ''ON'' initial_program)) = []"
proof -
  have a: "rejects (rejecting HideIcons) (if payload_true_spec ''OFF'' then ShowIcons else HideIcons)"
    by (simp add: rejecting_def example_env_def payload_true_spec_def case_insensitive_equal_def)
  have b: "rejects (rejecting Mute) (if payload_true_spec ''ON'' then Mute else Unmute)"
    by (simp add: rejecting_def example_env_def payload_true_spec_def)
  from a b
    toggle_rejected_keeps_shadow [of "rejecting HideIcons" "''OFF''" Part_001 example_ip initial_program]
    toggle_rejected_keeps_shadow [of "rejecting Mute" "''ON''" Main_ts example_ip initial_program]
  show ?thesis by blast
qed

text \<open>
  C9. The node identifier is a function of the interface enumeration alone, so two runs
  over the same enumeration give the same identifier; it is \<^verbatim>\<open>wallpaper_engine_\<close>
  followed by the chosen address with every \<^verbatim>\<open>.\<close> turned into \<^verbatim>\<open>_\<close> and every other
  character kept, and it contains no \<^verbatim>\<open>.\<close>.
\<close>

theorem nodeId_deterministic_no_dot:
  "(ifaces = ifaces' \<longrightarrow>
      nodeId (getLocalIPv4 defaultPrefix ifaces) = nodeId (getLocalIPv4 defaultPrefix ifaces'))
   \<and> CHR ''.'' \<notin> set (nodeId (getLocalIPv4 defaultPrefix ifaces))
   \<and> length (nodeId (getLocalIPv4 defaultPrefix ifaces))
        = 17 + length (getLocalIPv4 defaultPrefix ifaces)
   \<and> take 17 (nodeId (getLocalIPv4 defaultPrefix ifaces)) = ''wallpaper_engine_''
   \<and> (\<forall>i < length (getLocalIPv4 defaultPrefix ifaces).
         nodeId (getLocalIPv4 defaultPrefix ifaces) ! (17 + i)
           = (if getLocalIPv4 defaultPrefix ifaces ! i = CHR ''.'' then CHR ''_''
              else getLocalIPv4 defaultPrefix ifaces ! i))"
proof -
  have nodot: "CHR ''.'' \<notin> set (nodeId a)" for a
    by (auto simp add: nodeId_def replace_dots_def)
  have len: "length (nodeId a) = 17 + length a" for a
    by (simp add: nodeId_def replace_dots_def)
  have pre: "take 17 (nodeId a) = ''wallpaper_engine_''" for a
    by (simp add: nodeId_def)
  have nth: "\<forall>i < length a. nodeId a ! (17 + i) = (if a ! i = CHR ''.'' then CHR ''_'' else a ! i)" for a
  proof (intro allI impI)
    fix i assume "i < length a"
    have "nodeId a ! (17 + i) = (''wallpaper_engine_'' @ replace_dots a) ! (length ''wallpaper_engine_'' + i)"
      by (simp add: nodeId_def)
    also have "\<dots> = replace_dots a ! i"
      by (rule nth_append_length_plus)
    also have "\<dots> = (if a ! i = CHR ''.'' then CHR ''_'' else a ! i)"
      using \<open>i < length a\<close> by (simp add: replace_dots_def)
    finally show "nodeId a ! (17 + i) = (if a ! i = CHR ''.'' then CHR ''_'' else a ! i)" .
  qed
  from nodot len pre nth show ?thesis by blast
qed

theorem nodeId_deterministic_no_dot_witness:
  "nodeId (getLocalIPv4 defaultPrefix (networkInterfaces example_env))
     = ''wallpaper_engine_192_168_178_20''
   \<and> CHR ''.'' \<notin> set (nodeId (getLocalIPv4 defaultPrefix (networkInterfaces example_env)))
   \<and> nodeId (getLocalIPv4 defaultPrefix (networkInterfaces example_env)) ! (17 + 3) = CHR ''_''"
proof -
  have ip: "getLocalIPv4 defaultPrefix (networkInterfaces example_env) = ''192.168.178.20''"
    by (simp add: getLocalIPv4_def example_env_def enumerate_addrs_def addrs_of_def
          startsWith_def defaultPrefix_def)
  have id: "nodeId ''192.168.178.20'' = ''wallpaper_engine_192_168_178_20''"
    by (simp add: nodeId_def replace_dots_def)
  from nodeId_deterministic_no_dot
         [of "networkInterfaces example_env" "networkInterfaces example_env"]
  show ?thesis by (simp add: ip id)
qed

text \<open>
  C2. part_001 at the \<^verbatim>\<open>paused\<close> command with payload \<^verbatim>\<open>ON\<close>, from the start-up state:
  the pause call is made and resolves, the handler sets the \<^verbatim>\<open>muted\<close> shadow boolean and
  leaves \<^verbatim>\<open>paused\<close> false, and the value published on the \<^verbatim>\<open>paused\<close> state topic is
  \<^verbatim>\<open>OFF\<close>.
\<close>

theorem part001_pause_on_publishes_off:
  "on_message Part_001 example_env example_ip (command_topic example_ip ''paused'') ''ON''
     initial_program
     = (Normal,
        initial_program\<lparr>state := \<lparr>showIcons = True, muted = True, paused = False\<rparr>\<rparr>,
        [ConsoleLog ''Received message on we/wallpaper_engine_192_168_178_20/paused/set: ON'',
         Call Pause,
         Publish ''we/wallpaper_engine_192_168_178_20/paused/state'' ''OFF'' True])"
  by (simp add: version_defs on_message_part001_def stmt_defs topic_defs shadow_defs Let_def
        payload_on_main_def example_env_def example_ip_def initial_program_def nodeId_def
        replace_dots_def)

subsection \<open>Properties command\<close>

lemma stringify_fps: "stringify (JObj [(''fps'', JNum (Finite ''30''))]) = ''{\"fps\":30}''"
  by (simp add: quote_def escape_char_def)

text \<open>
  C8, as the claim states it, fails on part_000: the payload \<^verbatim>\<open>{"fps":30}\<close> parses and
  the apply call resolves, and what is published on \<^verbatim>\<open>last_set\<close> is the property mapping
  of the current wallpaper as the control API reports it (here none, so \<^verbatim>\<open>{}\<close>); when the
  current-wallpaper query rejects, nothing is published on \<^verbatim>\<open>last_set\<close> although parsing
  and applying both succeeded.
\<close>

theorem properties_counterexample:
  "JSON_parse example_env ''{\"fps\":30}'' = Some (JObj [(''fps'', JNum (Finite ''30''))])
   \<and> calls (trace (on_message Part_000 example_env example_ip
        (command_topic example_ip ''properties'') ''{\"fps\":30}'' initial_program))
      = [ApplyProperties (JObj [(''fps'', JNum (Finite ''30''))]), CurrentWallpaper]
   \<and> filter (\<lambda>p. fst p = last_set_topic example_ip)
        (publishes (trace (on_message Part_000 example_env example_ip
           (command_topic example_ip ''properties'') ''{\"fps\":30}'' initial_program)))
      = [(last_set_topic example_ip, ''{}'', True)]
   \<and> calls (trace (on_message Part_000 (rejecting CurrentWallpaper) example_ip
        (command_topic example_ip ''properties'') ''{\"fps\":30}'' initial_program))
      = [ApplyProperties (JObj [(''fps'', JNum (Finite ''30''))]), CurrentWallpaper]
   \<and> publishes (trace (on_message Part_000 (rejecting CurrentWallpaper) example_ip
        (command_topic example_ip ''properties'') ''{\"fps\":30}'' initial_program)) = []"
  by (simp add: version_defs on_message_part000_def publishCurrentWallpaper_def stmt_defs
        topic_defs result_defs Let_def example_env_def rejecting_def obj_def quote_def
        escape_char_def)

text \<open>
  C8, amended. For every properties command, in every version: when the payload fails
  JSON parsing, no control call is made and nothing is published. When it parses to a
  value, exactly one apply call is made, with that value. main.ts and part_001 then
  publish the serialised value, retained, on \<^verbatim>\<open>last_set\<close> exactly when the apply call
  resolves, and publish nothing else; the object \<^verbatim>\<open>{"fps":30}\<close> is serialised as
  \<^verbatim>\<open>{"fps":30}\<close>, and every number as \<^verbatim>\<open>JSON.stringify\<close> prints it. part_000 instead queries the current wallpaper after a resolved apply
  call and publishes on \<^verbatim>\<open>last_set\<close>, retained, the property mapping of that wallpaper
  (\<^verbatim>\<open>{}\<close> when it is missing or falsy), exactly when that query resolves too.
\<close>

theorem properties_parse_apply_publish:
  "(JSON_parse e msg = None \<longrightarrow>
      calls (trace (on_message v e ip (command_topic ip ''properties'') msg s)) = []
      \<and> publishes (trace (on_message v e ip (command_topic ip ''properties'') msg s)) = [])
   \<and> (JSON_parse e msg = Some props \<and> v \<noteq> Part_000 \<longrightarrow>
      calls (trace (on_message v e ip (command_topic ip ''properties'') msg s))
        = [ApplyProperties props]
      \<and> publishes (trace (on_message v e ip (command_topic ip ''properties'') msg s))
        = (if rejects e (ApplyProperties props) then []
           else [(last_set_topic ip, stringify props, True)]))
   \<and> stringify (JObj [(''fps'', JNum (Finite ''30''))]) = ''{\"fps\":30}''
   \<and> (JSON_parse e msg = Some props \<longrightarrow>
      calls (trace (on_message Part_000 e ip (command_topic ip ''properties'') msg s))
        = (if rejects e (ApplyProperties props) then [ApplyProperties props]
           else [ApplyProperties props, CurrentWallpaper])
      \<and> filter (\<lambda>p. fst p = last_set_topic ip)
          (publishes (trace (on_message Part_000 e ip (command_topic ip ''properties'') msg s)))
        = (if rejects e (ApplyProperties props) \<or> rejects e CurrentWallpaper then []
           else [(last_set_topic ip,
                  stringify (case cw_properties (current_result e) of
                               None \<Rightarrow> JObj []
                             | Some p \<Rightarrow> if truthy p then p else JObj []),
                  True)]))"
proof -
  have unparsed: "JSON_parse e msg = None \<longrightarrow>
      calls (trace (on_message v e ip (command_topic ip ''properties'') msg s)) = []
      \<and> publishes (trace (on_message v e ip (command_topic ip ''properties'') msg s)) = []"
    by (cases v)
       (simp_all add: version_defs on_message_main_def on_message_part000_def
          on_message_part001_def stmt_defs topic_defs result_defs Let_def)
  have parsed: "JSON_parse e msg = Some props \<and> v \<noteq> Part_000 \<longrightarrow>
      calls (trace (on_message v e ip (command_topic ip ''properties'') msg s))
        = [ApplyProperties props]
      \<and> publishes (trace (on_message v e ip (command_topic ip ''properties'') msg s))
        = (if rejects e (ApplyProperties props) then []
           else [(last_set_topic ip, stringify props, True)])"
    by (cases v)
       (simp_all add: version_defs on_message_main_def on_message_part001_def stmt_defs
          topic_defs result_defs Let_def del: stringify.simps)
  have part000: "JSON_parse e msg = Some props \<longrightarrow>
      calls (trace (on_message Part_000 e ip (command_topic ip ''properties'') msg s))
        = (if rejects e (ApplyProperties props) then [ApplyProperties props]
           else [ApplyProperties props, CurrentWallpaper])
      \<and> filter (\<lambda>p. fst p = last_set_topic ip)
          (publishes (trace (on_message Part_000 e ip (command_topic ip ''properties'') msg s)))
        = (if rejects e (ApplyProperties props) \<or> rejects e CurrentWallpaper then []
           else [(last_set_topic ip,
                  stringify (case cw_properties (current_result e) of
                               None \<Rightarrow> JObj []
                             | Some p \<Rightarrow> if truthy p then p else JObj []),
                  True)])"
    by (simp add: version_defs on_message_part000_def publishCurrentWallpaper_def stmt_defs
          topic_defs result_defs Let_def del: stringify.simps)
  from unparsed parsed stringify_fps part000 show ?thesis by blast
qed

theorem properties_parse_apply_publish_witness:
  "JSON_parse example_env ''fps=30'' = None
   \<and> calls (trace (on_message Main_ts example_env example_ip
        (command_topic example_ip ''properties'') ''fps=30'' initial_program)) = []
   \<and> publishes (trace (on_message Main_ts example_env example_ip
        (command_topic example_ip ''properties'') ''fps=30'' initial_program)) = []
   \<and> JSON_parse example_env ''{\"fps\":30}'' = Some (JObj [(''fps'', JNum (Finite ''30''))])
   \<and> calls (trace (on_message Part_001 example_env example_ip
        (command_topic example_ip ''properties'') ''{\"fps\":30}'' initial_program))
      = [ApplyProperties (JObj [(''fps'', JNum (Finite ''30''))])]
   \<and> publishes (trace (on_message Part_001 example_env example_ip
        (command_topic example_ip ''properties'') ''{\"fps\":30}'' initial_program))
      = [(last_set_topic example_ip, ''{\"fps\":30}'', True)]
   \<and> filter (\<lambda>p. fst p = last_set_topic example_ip)
        (publishes (trace (on_message Part_000 example_env example_ip
           (command_topic example_ip ''properties'') ''{\"fps\":30}'' initial_program)))
      = [(last_set_topic example_ip, ''{}'', True)]
   \<and> JSON_parse example_env ''{\"fps\":1e21}'' = Some (JObj [(''fps'', JNum (Finite ''1e+21''))])
   \<and> publishes (trace (on_message Main_ts example_env example_ip
        (command_topic example_ip ''properties'') ''{\"fps\":1e21}'' initial_program))
      = [(last_set_topic example_ip, ''{\"fps\":1e+21}'', True)]
   \<and> JSON_parse example_env ''{\"fps\":0.5}'' = Some (JObj [(''fps'', JNum (Finite ''0.5''))])
   \<and> publishes (trace (on_message Part_001 example_env example_ip
        (command_topic example_ip ''properties'') ''{\"fps\":0.5}'' initial_program))
      = [(last_set_topic example_ip, ''{\"fps\":0.5}'', True)]"
proof -
  have bad: "JSON_parse example_env ''fps=30'' = None"
    by (simp add: example_env_def)
  have good: "JSON_parse example_env ''{\"fps\":30}'' = Some (JObj [(''fps'', JNum (Finite ''30''))])"
    by (simp add: example_env_def)
  have big: "JSON_parse example_env ''{\"fps\":1e21}''
               = Some (JObj [(''fps'', JNum (Finite ''1e+21''))])"
    by (simp add: example_env_def)
  have half: "JSON_parse example_env ''{\"fps\":0.5}''
                = Some (JObj [(''fps'', JNum (Finite ''0.5''))])"
    by (simp add: example_env_def)
  have ok: "\<not> rejects example_env c" for c
    by (simp add: example_env_def)
  have cur: "cw_properties (current_result example_env) = None"
    by (simp add: example_env_def)
  have big_text: "stringify (JObj [(''fps'', JNum (Finite ''1e+21''))]) = ''{\"fps\":1e+21}''"
    by (simp add: quote_def escape_char_def)
  have half_text: "stringify (JObj [(''fps'', JNum (Finite ''0.5''))]) = ''{\"fps\":0.5}''"
    by (simp add: quote_def escape_char_def)
  have unparsed:
    "calls (trace (on_message Main_ts example_env example_ip
        (command_topic example_ip ''properties'') ''fps=30'' initial_program)) = []
     \<and> publishes (trace (on_message Main_ts example_env example_ip
        (command_topic example_ip ''properties'') ''fps=30'' initial_program)) = []"
    using bad
      properties_parse_apply_publish
        [of example_env "''fps=30''" Main_ts example_ip initial_program JNull]
    by blast
  have thirty:
    "calls (trace (on_message Part_001 example_env example_ip
        (command_topic example_ip ''properties'') ''{\"fps\":30}'' initial_program))
       = [ApplyProperties (JObj [(''fps'', JNum (Finite ''30''))])]
     \<and> publishes (trace (on_message Part_001 example_env example_ip
        (command_topic example_ip ''properties'') ''{\"fps\":30}'' initial_program))
       = [(last_set_topic example_ip, ''{\"fps\":30}'', True)]
     \<and> filter (\<lambda>p. fst p = last_set_topic example_ip)
        (publishes (trace (on_message Part_000 example_env example_ip
           (command_topic example_ip ''properties'') ''{\"fps\":30}'' initial_program)))
       = [(last_set_topic example_ip, ''{}'', True)]"
    using good
      properties_parse_apply_publish
        [of example_env "''{\"fps\":30}''" Part_001 example_ip initial_program
            "JObj [(''fps'', JNum (Finite ''30''))]"]
    by (simp add: ok cur)
  have exponent:
    "publishes (trace (on_message Main_ts example_env example_ip
        (command_topic example_ip ''properties'') ''{\"fps\":1e21}'' initial_program))
       = [(last_set_topic example_ip, ''{\"fps\":1e+21}'', True)]"
    using big
      properties_parse_apply_publish
        [of example_env "''{\"fps\":1e21}''" Main_ts example_ip initial_program
            "JObj [(''fps'', JNum (Finite ''1e+21''))]"]
    by (simp add: ok big_text del: stringify.simps)
  have fraction:
    "publishes (trace (on_message Part_001 example_env example_ip
        (command_topic example_ip ''properties'') ''{\"fps\":0.5}'' initial_program))
       = [(last_set_topic example_ip, ''{\"fps\":0.5}'', True)]"
    using half
      properties_parse_apply_publish
        [of example_env "''{\"fps\":0.5}''" Part_001 example_ip initial_program
            "JObj [(''fps'', JNum (Finite ''0.5''))]"]
    by (simp add: ok half_text del: stringify.simps)
  from bad good big half unparsed thirty exponent fraction show ?thesis
    by (simp only: simp_thms)
qed

subsection \<open>Refresh pass\<close>

text \<open>
  C1, as the claim states it, fails: when the wallpaper-catalog query rejects, every
  version ends the pass there; the profile-catalog query is not made and nothing is
  published.
\<close>

theorem refresh_counterexample:
  "rejects (rejecting ListWallpapers) ListWallpapers
   \<and> ListProfiles \<notin> set (calls (trace
         (refresh Main_ts (rejecting ListWallpapers) example_ip initial_program)))
   \<and> refresh Main_ts (rejecting ListWallpapers) example_ip initial_program
      = (Normal, initial_program,
         [Call ListWallpapers, ConsoleError ''Failed to refresh wallpapers/profiles''])
   \<and> refresh Part_000 (rejecting ListWallpapers) example_ip initial_program
      = (Normal, initial_program,
         [Call ListWallpapers, ConsoleError ''Failed to refresh wallpapers/profiles''])
   \<and> refresh Part_001 (rejecting ListWallpapers) example_ip initial_program
      = (Normal, initial_program,
         [Call ListWallpapers, ConsoleError ''Failed to refresh wallpapers/profiles''])"
  by (simp add: refresh_def refreshWallpapersProfiles_main_def
        refreshWallpapersProfilesAndCurrent_def refreshWallpapersProfiles_part001_def
        stmt_defs result_defs Let_def rejecting_def example_env_def)

text \<open>
  C1, amended. In every version a rejected wallpaper-catalog query is caught and logged
  and ends the pass: no other query is made, nothing is published, the program variables
  are what they were, and the pass returns normally. The one step that fails on its own
  is the current-wallpaper publish of part_000: when both catalog queries resolve and the
  current-wallpaper query rejects, the pass still returns normally and still publishes
  the two raw catalogs, retained.
\<close>

theorem refresh_failure_handling:
  "(rejects e ListWallpapers \<longrightarrow>
      refresh v e ip s
        = (Normal, s, [Call ListWallpapers, ConsoleError ''Failed to refresh wallpapers/profiles'']))
   \<and> (\<not> rejects e ListWallpapers \<and> \<not> rejects e ListProfiles \<and> rejects e CurrentWallpaper \<longrightarrow>
      outcome (refresh Part_000 e ip s) = Normal
      \<and> calls (trace (refresh Part_000 e ip s)) = [ListWallpapers, ListProfiles, CurrentWallpaper]
      \<and> (catalog_topic ip ''wallpapers'',
           stringify (JArr (map entry_json (map to_entry (listWallpapers_result e)))), True)
          \<in> set (publishes (trace (refresh Part_000 e ip s)))
      \<and> (catalog_topic ip ''profiles'',
           stringify (JArr (map JStr (case listProfiles_result e of None \<Rightarrow> [] | Some ps \<Rightarrow> ps))),
           True)
          \<in> set (publishes (trace (refresh Part_000 e ip s))))"
proof -
  have ends: "rejects e ListWallpapers \<longrightarrow>
      refresh v e ip s
        = (Normal, s, [Call ListWallpapers, ConsoleError ''Failed to refresh wallpapers/profiles''])"
    by (cases v)
       (simp_all add: refresh_def refreshWallpapersProfiles_main_def
          refreshWallpapersProfilesAndCurrent_def refreshWallpapersProfiles_part001_def
          stmt_defs Let_def)
  have current: "\<not> rejects e ListWallpapers \<and> \<not> rejects e ListProfiles \<and> rejects e CurrentWallpaper \<longrightarrow>
      outcome (refresh Part_000 e ip s) = Normal
      \<and> calls (trace (refresh Part_000 e ip s)) = [ListWallpapers, ListProfiles, CurrentWallpaper]
      \<and> (catalog_topic ip ''wallpapers'',
           stringify (JArr (map entry_json (map to_entry (listWallpapers_result e)))), True)
          \<in> set (publishes (trace (refresh Part_000 e ip s)))
      \<and> (catalog_topic ip ''profiles'',
           stringify (JArr (map JStr (case listProfiles_result e of None \<Rightarrow> [] | Some ps \<Rightarrow> ps))),
           True)
          \<in> set (publishes (trace (refresh Part_000 e ip s)))"
    by (simp add: refresh_def refreshWallpapersProfilesAndCurrent_def
          publishCurrentWallpaper_def publishJson_part000_def stmt_defs topic_defs
          result_defs Let_def del: stringify.simps)
  from ends current show ?thesis by blast
qed

theorem refresh_failure_handling_witness:
  "rejects (rejecting ListWallpapers) ListWallpapers
   \<and> refresh Part_001 (rejecting ListWallpapers) example_ip sunset_catalog
      = (Normal, sunset_catalog,
         [Call ListWallpapers, ConsoleError ''Failed to refresh wallpapers/profiles''])
   \<and> \<not> rejects (rejecting CurrentWallpaper) ListWallpapers
   \<and> \<not> rejects (rejecting CurrentWallpaper) ListProfiles
   \<and> rejects (rejecting CurrentWallpaper) CurrentWallpaper
   \<and> (catalog_topic example_ip ''wallpapers'', ''[{\"id\":\"abc123\",\"title\":\"Sunset\"}]'', True)
       \<in> set (publishes (trace (refresh Part_000 (rejecting CurrentWallpaper) example_ip
                 initial_program)))
   \<and> (catalog_topic example_ip ''profiles'', ''[\"Work\"]'', True)
       \<in> set (publishes (trace (refresh Part_000 (rejecting CurrentWallpaper) example_ip
                 initial_program)))"
proof -
  have r1: "rejects (rejecting ListWallpapers) ListWallpapers"
    by (simp add: rejecting_def)
  have r2: "\<not> rejects (rejecting CurrentWallpaper) ListWallpapers
            \<and> \<not> rejects (rejecting CurrentWallpaper) ListProfiles
            \<and> rejects (rejecting CurrentWallpaper) CurrentWallpaper"
    by (simp add: rejecting_def)
  have w: "stringify (JArr (map entry_json
             (map to_entry (listWallpapers_result (rejecting CurrentWallpaper)))))
           = ''[{\"id\":\"abc123\",\"title\":\"Sunset\"}]''"
    by (simp add: rejecting_def example_env_def to_entry_def entry_json_def quote_def
          escape_char_def)
  have p: "stringify (JArr (map JStr
             (case listProfiles_result (rejecting CurrentWallpaper) of
                None \<Rightarrow> [] | Some ps \<Rightarrow> ps)))
           = ''[\"Work\"]''"
    by (simp add: rejecting_def example_env_def quote_def escape_char_def)
  from r1 r2
    refresh_failure_handling [of "rejecting ListWallpapers" Part_001 example_ip sunset_catalog]
    refresh_failure_handling [of "rejecting CurrentWallpaper" Part_000 example_ip initial_program]
  show ?thesis by (simp only: w p) blast
qed

subsection \<open>Retained publishes\<close>

lemma publishes_append: "publishes (a @ b) = publishes a @ publishes b"
  by (induction a rule: publishes.induct) simp_all

lemma allowed_on_message_main:
  "list_all (allowed_publish ip) (publishes (trace (on_message_main e ip topic msg s)))"
  by (simp add: on_message_main_def refreshWallpapersProfiles_main_def publishJson_main_def
        stmt_defs topic_defs result_defs Let_def allowed_publish_def
        split: option.splits del: stringify.simps)

lemma allowed_on_message_part000:
  "list_all (allowed_publish ip) (publishes (trace (on_message_part000 e ip topic msg s)))"
  by (simp add: on_message_part000_def refreshWallpapersProfilesAndCurrent_def
        publishCurrentWallpaper_def publishJson_part000_def
        stmt_defs topic_defs result_defs Let_def allowed_publish_def
        split: option.splits del: stringify.simps)

lemma allowed_on_message_part001:
  "list_all (allowed_publish ip) (publishes (trace (on_message_part001 e ip topic msg s)))"
  by (simp add: on_message_part001_def refreshWallpapersProfiles_part001_def
        select_wallpaper_part001_def publishJson_part001_def
        stmt_defs topic_defs result_defs Let_def allowed_publish_def
        split: option.splits del: stringify.simps)

lemma allowed_refresh:
  "list_all (allowed_publish ip) (publishes (trace (refresh v e ip s)))"
  by (cases v)
     (simp_all add: refresh_def refreshWallpapersProfiles_main_def
        refreshWallpapersProfilesAndCurrent_def refreshWallpapersProfiles_part001_def
        publishCurrentWallpaper_def publishJson_main_def publishJson_part000_def
        publishJson_part001_def stmt_defs topic_defs result_defs Let_def allowed_publish_def
        del: stringify.simps)

lemma allowed_on_connect_main:
  "list_all (allowed_publish ip) (publishes (trace (on_connect_main e ip s)))"
  by (simp add: on_connect_main_def initialSyncAndDiscovery_main_def entities_def
        subscribeCommandTopics_main_def command_names_def
        refreshWallpapersProfiles_main_def publishJson_main_def
        stmt_defs topic_defs result_defs Let_def allowed_publish_def
        del: stringify.simps)

lemma allowed_on_connect_part000:
  "list_all (allowed_publish ip) (publishes (trace (on_connect_part000 e ip s)))"
  by (simp add: on_connect_part000_def initialSyncAndDiscovery_part000_def
        subscribeCommandTopics_part000_def
        refreshWallpapersProfilesAndCurrent_def publishCurrentWallpaper_def
        publishJson_part000_def
        stmt_defs topic_defs result_defs Let_def allowed_publish_def
        del: stringify.simps)

lemma allowed_on_connect_part001:
  "list_all (allowed_publish ip) (publishes (trace (on_connect_part001 e ip s)))"
  by (simp add: on_connect_part001_def initialSyncAndDiscovery_part001_def entities_def
        subscribeCommandTopics_main_def command_names_def
        refreshWallpapersProfiles_part001_def publishJson_part001_def
        stmt_defs topic_defs result_defs Let_def allowed_publish_def
        del: stringify.simps)

lemma allowed_handle:
  "list_all (allowed_publish ip) (publishes (trace (handle v e ip i s)))"
proof (cases i)
  case Connect
  then show ?thesis
    by (cases v)
       (simp_all add: handle_def on_connect_def allowed_on_connect_main
          allowed_on_connect_part000 allowed_on_connect_part001)
next
  case (Message topic msg)
  then show ?thesis
    by (cases v)
       (simp_all add: handle_def on_message_def allowed_on_message_main
          allowed_on_message_part000 allowed_on_message_part001)
next
  case Tick
  have "list_all (allowed_publish ip) (publishes (trace (refresh v e ip s)))"
    by (rule allowed_refresh)
  then have "list_all (allowed_publish ip)
               (publishes (trace (try_catch (refresh v e ip) (emit (ConsoleError [])) s)))"
    by (cases "refresh v e ip s" rule: prod_cases3)
       (simp add: try_catch_def emit_def trace_def publishes_append split: completion.splits)
  with Tick show ?thesis by (simp add: handle_def)
next
  case Sigint
  then show ?thesis
    by (simp add: handle_def on_sigint_def stmt_defs result_defs allowed_publish_def)
qed

text \<open>
  C5, as the claim states it, fails: the acknowledgement that main.ts and part_000 publish
  on the \<^verbatim>\<open>button_play\<close> state topic is not retained.
\<close>

theorem retained_counterexample:
  "publishes (snd (run Main_ts example_ip
       [(example_env, Message (command_topic example_ip ''button_play'') [])] initial_program))
     = [(state_topic example_ip ''button_play'', ''pressed'', False)]
   \<and> publishes (snd (run Part_000 example_ip
       [(example_env, Message (command_topic example_ip ''button_play'') [])] initial_program))
     = [(state_topic example_ip ''button_play'', ''pressed'', False)]"
  by (simp add: handle_def version_defs on_message_main_def on_message_part000_def stmt_defs
        topic_defs result_defs Let_def example_env_def)

text \<open>
  C5, amended. In every run of every version (connects, messages, timer ticks and SIGINT
  in any order, whatever the control API answers), every publish is retained, except the
  \<^verbatim>\<open>pressed\<close> acknowledgements on the \<^verbatim>\<open>button_play\<close> and \<^verbatim>\<open>button_stop\<close> state topics.
\<close>

theorem publishes_retained_except_buttons:
  "list_all (allowed_publish ip) (publishes (snd (run v ip eis s)))"
proof (induction eis arbitrary: s)
  case Nil
  show ?case by simp
next
  case (Cons ei eis)
  obtain r s' t where h: "handle v (fst ei) ip (snd ei) s = (r, s', t)"
    by (cases "handle v (fst ei) ip (snd ei) s" rule: prod_cases3)
  obtain s'' t' where rest: "run v ip eis s' = (s'', t')"
    by (cases "run v ip eis s'")
  have "list_all (allowed_publish ip) (publishes (trace (handle v (fst ei) ip (snd ei) s)))"
    by (rule allowed_handle)
  with h have first: "list_all (allowed_publish ip) (publishes t)"
    by (simp add: trace_def)
  from Cons.IH [of s'] rest have later: "list_all (allowed_publish ip) (publishes t')"
    by simp
  from h rest first later show ?case
    by (simp add: publishes_append)
qed

theorem publishes_retained_except_buttons_witness:
  "publishes (snd (run Part_001 example_ip
       [(example_env, Message (command_topic example_ip ''muted'') ''ON''),
        (example_env, Message (command_topic example_ip ''button_stop'') []),
        (example_env, Sigint)] initial_program))
     = [(state_topic example_ip ''muted'', ''ON'', True),
        (state_topic example_ip ''button_stop'', ''pressed'', False),
        (statusTopic (nodeId example_ip), ''offline'', True)]
   \<and> list_all (allowed_publish example_ip) (publishes (snd (run Part_001 example_ip
       [(example_env, Message (command_topic example_ip ''muted'') ''ON''),
        (example_env, Message (command_topic example_ip ''button_stop'') []),
        (example_env, Sigint)] initial_program)))"
proof -
  have "publishes (snd (run Part_001 example_ip
       [(example_env, Message (command_topic example_ip ''muted'') ''ON''),
        (example_env, Message (command_topic example_ip ''button_stop'') []),
        (example_env, Sigint)] initial_program))
     = [(state_topic example_ip ''muted'', ''ON'', True),
        (state_topic example_ip ''button_stop'', ''pressed'', False),
        (statusTopic (nodeId example_ip), ''offline'', True)]"
    by (simp add: handle_def version_defs on_message_part001_def on_sigint_def stmt_defs
          topic_defs shadow_defs result_defs Let_def example_env_def payload_on_main_def
          initial_program_def)
  with publishes_retained_except_buttons
         [of example_ip Part_001
             "[(example_env, Message (command_topic example_ip ''muted'') ''ON''),
               (example_env, Message (command_topic example_ip ''button_stop'') []),
               (example_env, Sigint)]" initial_program]
  show ?thesis by simp
qed

end
